theory Spec2Isabelle
  imports Complex_Main
begin

section \<open>Numbers, keys and the scene graph\<close>

text \<open>
  The demos compute with JavaScript numbers. They are modelled as real numbers with exact
  arithmetic: every arithmetic expression of the source is written down as it stands, and
  rounding and infinities are outside the model. \<^verbatim>\<open>NaN\<close> is in the model where the
  program can meet it, in the healths of the arena game. Counters and indices are natural
  numbers.

  The key table \<^verbatim>\<open>keys: Record<string, boolean>\<close> is a partial map; a key that was
  never touched reads \<^verbatim>\<open>undefined\<close>, which is falsy.
\<close>

type_synonym keymap = "string \<rightharpoonup> bool"

definition pressed :: "keymap \<Rightarrow> string \<Rightarrow> bool" where
  "pressed ks k = (ks k = Some True)"

text \<open>
  \<^verbatim>\<open>THREE.Vector3\<close> and \<^verbatim>\<open>THREE.Box3\<close>. The fields \<^verbatim>\<open>x, y, z\<close> and
  \<^verbatim>\<open>min, max\<close> carry a prefix here, since the plain names are variables and constants
  of HOL.
\<close>

record vec3 =
  vx :: real
  vy :: real
  vz :: real

record box3 =
  bmin :: vec3
  bmax :: vec3

text \<open>
  \<^verbatim>\<open>Box3.intersectsBox\<close> of the rendering library: two boxes overlap when their
  closed intervals overlap on each of the three axes.
\<close>

definition intersectsBox :: "box3 \<Rightarrow> box3 \<Rightarrow> bool" where
  "intersectsBox this box \<longleftrightarrow>
     vx (bmax box) \<ge> vx (bmin this) \<and> vx (bmin box) \<le> vx (bmax this) \<and>
     vy (bmax box) \<ge> vy (bmin this) \<and> vy (bmin box) \<le> vy (bmax this) \<and>
     vz (bmax box) \<ge> vz (bmin this) \<and> vz (bmin box) \<le> vz (bmax this)"

text \<open>
  The scene graph of the rendering library: every \<^verbatim>\<open>Object3D\<close> has a position and a
  rotation, a \<^verbatim>\<open>Group\<close> and a \<^verbatim>\<open>Mesh\<close> extend it. A character is a group whose
  named parts (\<^verbatim>\<open>head\<close>, \<^verbatim>\<open>torso\<close>, \<^verbatim>\<open>rightArm\<close>, \<^verbatim>\<open>rightLeg\<close>) are found
  with \<^verbatim>\<open>getObjectByName\<close>. A reference to a part is modelled by its name inside its
  group, so two references to the same part alias as they do in the source; writing through
  a reference to a part that the group does not hold leaves the group as it is.
\<close>

record object3d =
  position :: vec3
  rotation :: vec3

record group = object3d +
  objects :: "string \<rightharpoonup> object3d"

definition getObjectByName :: "group \<Rightarrow> string \<Rightarrow> string option" where
  "getObjectByName g n = (if objects g n = None then None else Some n)"

definition set_rotation_x :: "string \<Rightarrow> real \<Rightarrow> group \<Rightarrow> group" where
  "set_rotation_x n v g =
     (case objects g n of
        None \<Rightarrow> g
      | Some ob \<Rightarrow> g\<lparr>objects := (objects g)(n \<mapsto> ob\<lparr>rotation := (rotation ob)\<lparr>vx := v\<rparr>\<rparr>)\<rparr>)"

definition set_rotation_z :: "string \<Rightarrow> real \<Rightarrow> group \<Rightarrow> group" where
  "set_rotation_z n v g =
     (case objects g n of
        None \<Rightarrow> g
      | Some ob \<Rightarrow> g\<lparr>objects := (objects g)(n \<mapsto> ob\<lparr>rotation := (rotation ob)\<lparr>vz := v\<rparr>\<rparr>)\<rparr>)"

definition set_position_x :: "real \<Rightarrow> group \<Rightarrow> group" where
  "set_position_x v g = g\<lparr>position := (position g)\<lparr>vx := v\<rparr>\<rparr>"

section \<open>The base fighting game\<close>

text \<open>The first variant of the game: two fighters, punch and kick, lightning and fireball.\<close>

datatype attack = Punch | Kick

record controls =
  left :: string
  right :: string
  punch :: string
  kick :: string

record 'c fighter =
  group :: group
  facing :: int
  health :: real
  isAttacking :: bool
  attackTimer :: real
  attackLimb :: "string option"
  attackType :: "attack option"
  controls :: "'c controls_scheme"

definition speed :: real where
  "speed = 2.5"

definition attackDuration :: real where
  "attackDuration = 0.3"

subsection \<open>updateFighter\<close>

text \<open>
  The body of \<^verbatim>\<open>updateFighter(f, opponent, dt)\<close> is cut at its comments into the blocks
  below; \<open>updateFighter\<close> runs them in the order of the source. The function reads the key
  table and the flag \<^verbatim>\<open>gameOver\<close> from the enclosing scope, so both are arguments,
  \<open>ks\<close> and \<open>over\<close>.
  The bounding box of a group, \<^verbatim>\<open>new THREE.Box3().setFromObject(g)\<close>, depends on the meshes
  of the character, which the game never changes: it is the parameter \<open>boxOf\<close>.
\<close>

definition faceOpponent ::
  "('c, 'a) fighter_scheme \<Rightarrow> ('c, 'a) fighter_scheme \<Rightarrow> ('c, 'a) fighter_scheme" where
  "faceOpponent f opponent =
     (let f1 = f\<lparr>facing :=
                  (if vx (position (group opponent)) > vx (position (group f)) then 1 else - 1)\<rparr>
      in f1\<lparr>group := (group f1)\<lparr>rotation := (rotation (group f1))\<lparr>vy :=
                  (if facing f1 = 1 then pi / 2 else - pi / 2)\<rparr>\<rparr>\<rparr>)"

definition movement ::
  "keymap \<Rightarrow> real \<Rightarrow> ('c, 'a) fighter_scheme \<Rightarrow> ('c, 'a) fighter_scheme" where
  "movement ks dt f =
     (let f1 = (if pressed ks (left (controls f))
                then f\<lparr>group := set_position_x (vx (position (group f)) - speed * dt) (group f)\<rparr>
                else f)
      in if pressed ks (right (controls f1))
         then f1\<lparr>group := set_position_x (vx (position (group f1)) + speed * dt) (group f1)\<rparr>
         else f1)"

definition requestedAttack :: "keymap \<Rightarrow> unit fighter \<Rightarrow> attack option" where
  "requestedAttack ks f =
     (let r1 = (if pressed ks (punch (controls f)) then Some Punch else None)
      in if pressed ks (kick (controls f)) then Some Kick else r1)"

definition startAttack ::
  "attack option \<Rightarrow> ('c, 'a) fighter_scheme \<Rightarrow> ('c, 'a) fighter_scheme" where
  "startAttack req f =
     (case req of
        None \<Rightarrow> f
      | Some a \<Rightarrow>
          if \<not> isAttacking f
          then f\<lparr>isAttacking := True,
                 attackTimer := attackDuration,
                 attackType := Some a,
                 attackLimb := (if a = Punch then getObjectByName (group f) ''rightArm''
                                else getObjectByName (group f) ''rightLeg'')\<rparr>
          else f)"

definition tickAttack :: "real \<Rightarrow> ('c, 'a) fighter_scheme \<Rightarrow> ('c, 'a) fighter_scheme" where
  "tickAttack dt f =
     (let f1 = f\<lparr>attackTimer := attackTimer f - dt\<rparr>
      in if attackTimer f1 \<le> 0 then f1\<lparr>isAttacking := False, attackType := None\<rparr> else f1)"

definition animateLimb :: "('c, 'a) fighter_scheme \<Rightarrow> ('c, 'a) fighter_scheme" where
  "animateLimb f =
     (case attackLimb f of
        None \<Rightarrow> f
      | Some limb \<Rightarrow>
          (let progress = 1 - attackTimer f / attackDuration;
               angle = sin (progress * pi) * (pi / 2)
           in if attackType f = Some Punch then f\<lparr>group := set_rotation_x limb (- angle) (group f)\<rparr>
              else if attackType f = Some Kick then f\<lparr>group := set_rotation_x limb (- angle) (group f)\<rparr>
              else f))"

definition resetLimb :: "('c, 'a) fighter_scheme \<Rightarrow> ('c, 'a) fighter_scheme" where
  "resetLimb f =
     (case attackLimb f of
        None \<Rightarrow> f
      | Some limb \<Rightarrow> f\<lparr>group := set_rotation_x limb 0 (group f)\<rparr>)"

text \<open>
  The result is the fighter, the opponent and the number of calls of
  \<^verbatim>\<open>updateHealthBars()\<close>, which the source makes in the hit branch and nowhere else in
  this function.
\<close>

definition updateFighter ::
  "(group \<Rightarrow> box3) \<Rightarrow> keymap \<Rightarrow> bool \<Rightarrow> unit fighter \<Rightarrow> unit fighter \<Rightarrow> real \<Rightarrow>
     unit fighter \<times> unit fighter \<times> nat" where
  "updateFighter boxOf ks over f opponent dt =
     (if over \<or> health f \<le> 0 then (f, opponent, 0)
      else
        let f1 = faceOpponent f opponent;
            f2 = movement ks dt f1;
            f3 = startAttack (requestedAttack ks f2) f2
        in if isAttacking f3
           then
             (let f4 = tickAttack dt f3;
                  f5 = animateLimb f4;
                  fBox = boxOf (group f5);
                  oBox = boxOf (group opponent)
              in if intersectsBox fBox oBox
                 then (f5\<lparr>isAttacking := False\<rparr>,
                       opponent\<lparr>health := max 0 (health opponent - 10)\<rparr>, 1)
                 else (f5, opponent, 0))
           else (resetLimb f3, opponent, 0))"

subsection \<open>The game state and the frame loop\<close>

text \<open>
  The variables of \<^verbatim>\<open>init\<close> that the frame loop reads and writes. \<^verbatim>\<open>boy\<close> and
  \<^verbatim>\<open>girl\<close> are the groups of \<open>fighter1\<close> and \<open>fighter2\<close>. Of a projectile's mesh only
  the position changes. What the source draws is kept as a log: the widths of the two
  health bars with the number of calls of \<^verbatim>\<open>updateHealthBars\<close>, the number of lightning
  bolts and fireballs shot, and the messages of the end-of-game overlay.
\<close>

datatype owner = OwnerGirl

record projectile =
  mesh_position :: vec3
  velocity :: vec3
  owner :: owner
  lifetime :: real

record ('c, 'a) world =
  fighter1 :: "('c, 'a) fighter_scheme"
  fighter2 :: "('c, 'a) fighter_scheme"
  keys :: keymap
  gameStarted :: bool
  gameOver :: bool
  lightningCooldown :: real
  xPressedPrev :: bool
  fireballCooldown :: real
  uPressedPrev :: bool
  projectiles :: "projectile list"
  prevTime :: real
  bar1_width :: real
  bar2_width :: real
  healthBarUpdates :: nat
  lightningShots :: nat
  fireballShots :: nat
  overlays :: "string list"

definition updateHealthBars :: "('c, 'a, 'w) world_scheme \<Rightarrow> ('c, 'a, 'w) world_scheme" where
  "updateHealthBars w =
     w\<lparr>bar1_width := health (fighter1 w) * 2,
       bar2_width := health (fighter2 w) * 2,
       healthBarUpdates := Suc (healthBarUpdates w)\<rparr>"

definition endGame :: "string \<Rightarrow> ('c, 'a, 'w) world_scheme \<Rightarrow> ('c, 'a, 'w) world_scheme" where
  "endGame message w = w\<lparr>gameOver := True, overlays := overlays w @ [message]\<rparr>"

text \<open>
  \<^verbatim>\<open>updateFighter(fighter1, fighter2, dt)\<close> and \<^verbatim>\<open>updateFighter(fighter2, fighter1, dt)\<close>
  as the frame loop calls them, on the whole state.
\<close>

definition updateFighter_1_2 :: "(group \<Rightarrow> box3) \<Rightarrow> real \<Rightarrow> (unit, unit) world \<Rightarrow> (unit, unit) world" where
  "updateFighter_1_2 boxOf dt w =
     (case updateFighter boxOf (keys w) (gameOver w) (fighter1 w) (fighter2 w) dt of
        (f, opponent, n) \<Rightarrow> (updateHealthBars ^^ n) (w\<lparr>fighter1 := f, fighter2 := opponent\<rparr>))"

definition updateFighter_2_1 :: "(group \<Rightarrow> box3) \<Rightarrow> real \<Rightarrow> (unit, unit) world \<Rightarrow> (unit, unit) world" where
  "updateFighter_2_1 boxOf dt w =
     (case updateFighter boxOf (keys w) (gameOver w) (fighter2 w) (fighter1 w) dt of
        (f, opponent, n) \<Rightarrow> (updateHealthBars ^^ n) (w\<lparr>fighter2 := f, fighter1 := opponent\<rparr>))"

text \<open>
  \<^verbatim>\<open>shootLightning\<close>: the bolt is drawn and the girl is damaged at once.
\<close>

definition shootLightning :: "(unit, unit) world \<Rightarrow> (unit, unit) world" where
  "shootLightning w =
     (let w1 = w\<lparr>lightningShots := Suc (lightningShots w)\<rparr>;
          w2 = w1\<lparr>fighter2 := (fighter2 w1)\<lparr>health := max 0 (health (fighter2 w1) - 10)\<rparr>\<rparr>;
          w3 = updateHealthBars w2
      in if health (fighter2 w3) = 0 \<and> \<not> gameOver w3 then endGame ''Boy wins!'' w3 else w3)"

text \<open>
  \<^verbatim>\<open>shootFireball\<close>: a sphere is sent from the girl towards the boy, both taken at
  height 2. \<^verbatim>\<open>Vector3.normalize\<close> of the library divides by the length, or by 1 when
  the length is 0.
\<close>

definition vec_sub :: "vec3 \<Rightarrow> vec3 \<Rightarrow> vec3" where
  "vec_sub a b = \<lparr>vx = vx a - vx b, vy = vy a - vy b, vz = vz a - vz b\<rparr>"

definition multiplyScalar :: "vec3 \<Rightarrow> real \<Rightarrow> vec3" where
  "multiplyScalar a s = \<lparr>vx = vx a * s, vy = vy a * s, vz = vz a * s\<rparr>"

definition vec_length :: "vec3 \<Rightarrow> real" where
  "vec_length a = sqrt (vx a * vx a + vy a * vy a + vz a * vz a)"

definition normalize_vec :: "vec3 \<Rightarrow> vec3" where
  "normalize_vec a =
     (let l = (if vec_length a = 0 then 1 else vec_length a)
      in \<lparr>vx = vx a / l, vy = vy a / l, vz = vz a / l\<rparr>)"

definition addScaledVector :: "vec3 \<Rightarrow> vec3 \<Rightarrow> real \<Rightarrow> vec3" where
  "addScaledVector a v s = \<lparr>vx = vx a + vx v * s, vy = vy a + vy v * s, vz = vz a + vz v * s\<rparr>"

definition shootFireball :: "('c, 'a, 'w) world_scheme \<Rightarrow> ('c, 'a, 'w) world_scheme" where
  "shootFireball w =
     (let startPos = (position (group (fighter2 w)))\<lparr>vy := 2\<rparr>;
          endPos = (position (group (fighter1 w)))\<lparr>vy := 2\<rparr>;
          dir = normalize_vec (vec_sub endPos startPos)
      in w\<lparr>fireballShots := Suc (fireballShots w),
           projectiles := projectiles w @
             [\<lparr>mesh_position = startPos, velocity = multiplyScalar dir 8,
               owner = OwnerGirl, lifetime = 1.5\<rparr>]\<rparr>)"

text \<open>
  The loop over the projectiles runs from the last index down to 0; \<open>splice i\<close> is
  \<^verbatim>\<open>projectiles.splice(i, 1)\<close>. The first argument of \<open>updateProjectiles\<close> is the number
  of indices still to visit, so the loop starts at the length of the list. The bounding box
  of a projectile's mesh is the parameter \<open>meshBox\<close>, a function of the position.
\<close>

definition splice :: "nat \<Rightarrow> 'x list \<Rightarrow> 'x list" where
  "splice i xs = take i xs @ drop (Suc i) xs"

definition moveProjectile :: "real \<Rightarrow> projectile \<Rightarrow> projectile" where
  "moveProjectile dt p =
     p\<lparr>mesh_position := addScaledVector (mesh_position p) (velocity p) dt,
       lifetime := lifetime p - dt\<rparr>"

fun updateProjectiles ::
  "(group \<Rightarrow> box3) \<Rightarrow> (vec3 \<Rightarrow> box3) \<Rightarrow> real \<Rightarrow> nat \<Rightarrow> (unit, unit) world \<Rightarrow> (unit, unit) world" where
  "updateProjectiles boxOf meshBox dt 0 w = w"
| "updateProjectiles boxOf meshBox dt (Suc i) w =
     (let p = moveProjectile dt (projectiles w ! i);
          w1 = w\<lparr>projectiles := (projectiles w)[i := p]\<rparr>
      in if lifetime p \<le> 0
         then updateProjectiles boxOf meshBox dt i (w1\<lparr>projectiles := splice i (projectiles w1)\<rparr>)
         else
           (let pBox = meshBox (mesh_position p);
                boyBox = boxOf (group (fighter1 w1))
            in if owner p = OwnerGirl \<and> intersectsBox pBox boyBox
               then
                 (let w2 = w1\<lparr>fighter1 :=
                             (fighter1 w1)\<lparr>health := max 0 (health (fighter1 w1) - 10)\<rparr>\<rparr>;
                      w3 = updateHealthBars w2;
                      w4 = (if health (fighter1 w3) = 0 \<and> \<not> gameOver w3
                            then endGame ''Girl wins!'' w3 else w3)
                  in updateProjectiles boxOf meshBox dt i
                       (w4\<lparr>projectiles := splice i (projectiles w4)\<rparr>))
               else updateProjectiles boxOf meshBox dt i w1))"

text \<open>
  The blocks of \<^verbatim>\<open>animate\<close>. The argument \<open>current\<close> is the reading of
  \<^verbatim>\<open>performance.now()\<close>, in milliseconds.
\<close>

definition tickCooldowns :: "real \<Rightarrow> ('c, 'a, 'w) world_scheme \<Rightarrow> ('c, 'a, 'w) world_scheme" where
  "tickCooldowns dt w =
     (let w1 = (if lightningCooldown w > 0
                then w\<lparr>lightningCooldown := lightningCooldown w - dt\<rparr> else w)
      in if fireballCooldown w1 > 0
         then w1\<lparr>fireballCooldown := fireballCooldown w1 - dt\<rparr> else w1)"

definition lightningKey :: "(unit, unit) world \<Rightarrow> (unit, unit) world" where
  "lightningKey w =
     (if \<not> gameOver w \<and> health (fighter1 w) > 0
      then
        (let xPressed = pressed (keys w) ''KeyX'';
             w1 = (if xPressed \<and> \<not> xPressedPrev w \<and> lightningCooldown w \<le> 0
                   then (shootLightning w)\<lparr>lightningCooldown := 1\<rparr> else w)
         in w1\<lparr>xPressedPrev := xPressed\<rparr>)
      else w)"

definition fireballKey :: "(unit, unit) world \<Rightarrow> (unit, unit) world" where
  "fireballKey w =
     (if \<not> gameOver w \<and> health (fighter2 w) > 0
      then
        (let uPressed = pressed (keys w) ''KeyU'';
             w1 = (if uPressed \<and> \<not> uPressedPrev w \<and> fireballCooldown w \<le> 0
                   then (shootFireball w)\<lparr>fireballCooldown := 1\<rparr> else w)
         in w1\<lparr>uPressedPrev := uPressed\<rparr>)
      else w)"

definition animate ::
  "(group \<Rightarrow> box3) \<Rightarrow> (vec3 \<Rightarrow> box3) \<Rightarrow> real \<Rightarrow> (unit, unit) world \<Rightarrow> (unit, unit) world" where
  "animate boxOf meshBox current w =
     (let dt = (current - prevTime w) / 1000;
          w0 = w\<lparr>prevTime := current\<rparr>
      in if gameStarted w0
         then
           (let w1 = (if \<not> gameOver w0
                      then updateFighter_2_1 boxOf dt (updateFighter_1_2 boxOf dt w0) else w0);
                w2 = tickCooldowns dt w1;
                w3 = lightningKey w2;
                w4 = fireballKey w3
            in updateProjectiles boxOf meshBox dt (length (projectiles w4)) w4)
         else w0)"

section \<open>The fighting game with blocking and force fields\<close>

text \<open>
  The second variant of the game adds a block key with a grace period and a force field to
  each fighter. The blocks of \<^verbatim>\<open>updateFighter\<close> and \<^verbatim>\<open>animate\<close> that have the same
  text in both files are the definitions above, which is why they are stated for every
  extension of the records; the blocks that differ follow.

  The shield of a force field is a group of three meshes that \<^verbatim>\<open>handleForceField\<close> adds
  to the fighter's group when it stores it in \<^verbatim>\<open>forceMesh\<close> and removes when it clears
  \<^verbatim>\<open>forceMesh\<close>. So the bounding box of the fighter's group is a function of the group
  and of \<^verbatim>\<open>forceMesh\<close>, the parameter \<open>boxOf\<close> of this variant. Colours are left out.
\<close>

record bcontrols = controls +
  block :: string

record shield =
  scale :: real
  shield_rotation_y :: real
  wire_rotation_y :: real
  ring_rotation_z :: real
  inner_opacity :: real

record bfighter = "unit bcontrols_ext fighter" +
  isBlocking :: bool
  blockTimer :: real
  forceActiveTimer :: real
  forceCooldown :: real
  forceMesh :: "shield option"
  shieldKey :: string

record bworld = "(unit bcontrols_ext, unit bfighter_ext) world" +
  gPressedPrev :: bool
  zPressedPrev :: bool

definition BLOCK_GRACE :: real where
  "BLOCK_GRACE = 0.25"

definition updateBlocking :: "keymap \<Rightarrow> real \<Rightarrow> bfighter \<Rightarrow> bfighter" where
  "updateBlocking ks dt f =
     (let f1 = (if pressed ks (block (controls f)) then f\<lparr>blockTimer := BLOCK_GRACE\<rparr>
                else if blockTimer f > 0 then f\<lparr>blockTimer := blockTimer f - dt\<rparr>
                else f)
      in f1\<lparr>isBlocking := (blockTimer f1 > 0)\<rparr>)"

definition requestedAttack_blocking :: "keymap \<Rightarrow> bfighter \<Rightarrow> attack option" where
  "requestedAttack_blocking ks f =
     (if \<not> isBlocking f
      then (let r1 = (if pressed ks (punch (controls f)) then Some Punch else None)
            in if pressed ks (kick (controls f)) then Some Kick else r1)
      else None)"

definition blockingArms :: "bfighter \<Rightarrow> bfighter" where
  "blockingArms f =
     (let leftArm = getObjectByName (group f) ''leftArm'';
          rightArm = getObjectByName (group f) ''rightArm''
      in if isBlocking f
         then
           (let f1 = (case leftArm of None \<Rightarrow> f
                      | Some n \<Rightarrow> f\<lparr>group := set_rotation_x n 0 (set_rotation_z n (pi / 4) (group f))\<rparr>)
            in case rightArm of None \<Rightarrow> f1
               | Some n \<Rightarrow> f1\<lparr>group := set_rotation_x n 0 (set_rotation_z n (- pi / 4) (group f1))\<rparr>)
         else
           (let f1 = (case leftArm of None \<Rightarrow> f
                      | Some n \<Rightarrow> f\<lparr>group := set_rotation_z n 0 (group f)\<rparr>)
            in case rightArm of None \<Rightarrow> f1
               | Some n \<Rightarrow> f1\<lparr>group := set_rotation_z n 0 (group f1)\<rparr>))"

definition updateFighter_blocking ::
  "(group \<Rightarrow> shield option \<Rightarrow> box3) \<Rightarrow> keymap \<Rightarrow> bool \<Rightarrow> bfighter \<Rightarrow> bfighter \<Rightarrow> real \<Rightarrow>
     bfighter \<times> bfighter \<times> nat" where
  "updateFighter_blocking boxOf ks over f opponent dt =
     (if over \<or> health f \<le> 0 then (f, opponent, 0)
      else
        let f1 = faceOpponent f opponent;
            f2 = movement ks dt f1;
            f3 = updateBlocking ks dt f2;
            f4 = startAttack (requestedAttack_blocking ks f3) f3
        in if isAttacking f4
           then
             (let f5 = tickAttack dt f4;
                  f6 = animateLimb f5;
                  fBox = boxOf (group f6) (forceMesh f6);
                  oBox = boxOf (group opponent) (forceMesh opponent)
              in if intersectsBox fBox oBox \<and> \<not> isBlocking opponent \<and> forceActiveTimer opponent \<le> 0
                 then (blockingArms (f6\<lparr>isAttacking := False\<rparr>),
                       opponent\<lparr>health := max 0 (health opponent - 10)\<rparr>, 1)
                 else (blockingArms f6, opponent, 0))
           else (blockingArms (resetLimb f4), opponent, 0))"

definition updateFighter_blocking_1_2 ::
  "(group \<Rightarrow> shield option \<Rightarrow> box3) \<Rightarrow> real \<Rightarrow> bworld \<Rightarrow> bworld" where
  "updateFighter_blocking_1_2 boxOf dt w =
     (case updateFighter_blocking boxOf (keys w) (gameOver w) (fighter1 w) (fighter2 w) dt of
        (f, opponent, n) \<Rightarrow> (updateHealthBars ^^ n) (w\<lparr>fighter1 := f, fighter2 := opponent\<rparr>))"

definition updateFighter_blocking_2_1 ::
  "(group \<Rightarrow> shield option \<Rightarrow> box3) \<Rightarrow> real \<Rightarrow> bworld \<Rightarrow> bworld" where
  "updateFighter_blocking_2_1 boxOf dt w =
     (case updateFighter_blocking boxOf (keys w) (gameOver w) (fighter2 w) (fighter1 w) dt of
        (f, opponent, n) \<Rightarrow> (updateHealthBars ^^ n) (w\<lparr>fighter2 := f, fighter1 := opponent\<rparr>))"

definition shootLightning_blocking :: "bworld \<Rightarrow> bworld" where
  "shootLightning_blocking w =
     (let w1 = w\<lparr>lightningShots := Suc (lightningShots w)\<rparr>;
          w2 = (if \<not> isBlocking (fighter2 w1) \<and> forceActiveTimer (fighter2 w1) \<le> 0
                then w1\<lparr>fighter2 := (fighter2 w1)\<lparr>health := max 0 (health (fighter2 w1) - 10)\<rparr>\<rparr>
                else w1);
          w3 = updateHealthBars w2
      in if health (fighter2 w3) = 0 \<and> \<not> gameOver w3 then endGame ''Boy wins!'' w3 else w3)"

fun updateProjectiles_blocking ::
  "(group \<Rightarrow> shield option \<Rightarrow> box3) \<Rightarrow> (vec3 \<Rightarrow> box3) \<Rightarrow> real \<Rightarrow> nat \<Rightarrow> bworld \<Rightarrow> bworld" where
  "updateProjectiles_blocking boxOf meshBox dt 0 w = w"
| "updateProjectiles_blocking boxOf meshBox dt (Suc i) w =
     (let p = moveProjectile dt (projectiles w ! i);
          w1 = w\<lparr>projectiles := (projectiles w)[i := p]\<rparr>
      in if lifetime p \<le> 0
         then updateProjectiles_blocking boxOf meshBox dt i
                (w1\<lparr>projectiles := splice i (projectiles w1)\<rparr>)
         else
           (let pBox = meshBox (mesh_position p);
                boyBox = boxOf (group (fighter1 w1)) (forceMesh (fighter1 w1))
            in if owner p = OwnerGirl \<and> intersectsBox pBox boyBox
               then
                 (let w2 = (if \<not> isBlocking (fighter1 w1) \<and> forceActiveTimer (fighter1 w1) \<le> 0
                            then w1\<lparr>fighter1 :=
                                   (fighter1 w1)\<lparr>health := max 0 (health (fighter1 w1) - 10)\<rparr>\<rparr>
                            else w1);
                      w3 = updateHealthBars w2;
                      w4 = (if health (fighter1 w3) = 0 \<and> \<not> gameOver w3
                            then endGame ''Girl wins!'' w3 else w3)
                  in updateProjectiles_blocking boxOf meshBox dt i
                       (w4\<lparr>projectiles := splice i (projectiles w4)\<rparr>))
               else updateProjectiles_blocking boxOf meshBox dt i w1))"

text \<open>
  \<^verbatim>\<open>handleForceField(f, key, prevPressed, dt)\<close>: a fresh press of the shield key raises
  the field for 4 seconds with a cooldown of 60 seconds; both timers then run down.
\<close>

definition FIELD_DURATION :: real where
  "FIELD_DURATION = 4"

definition COOLDOWN :: real where
  "COOLDOWN = 60"

definition newShield :: shield where
  "newShield = \<lparr>scale = 1, shield_rotation_y = 0, wire_rotation_y = 0, ring_rotation_z = 0,
                 inner_opacity = 0.25\<rparr>"

definition animateShield :: "real \<Rightarrow> real \<Rightarrow> shield \<Rightarrow> shield" where
  "animateShield elapsed dt m =
     (let pulse = 1 + 0.15 * sin (elapsed * pi * 4)
      in m\<lparr>scale := pulse,
           shield_rotation_y := shield_rotation_y m + dt * 1.5,
           wire_rotation_y := wire_rotation_y m - dt * 2.5,
           ring_rotation_z := ring_rotation_z m + dt * 3,
           inner_opacity := 0.18 + 0.07 * (sin (elapsed * pi * 6) + 1) / 2\<rparr>)"

definition handleForceField :: "keymap \<Rightarrow> string \<Rightarrow> bool \<Rightarrow> real \<Rightarrow> bfighter \<Rightarrow> bfighter" where
  "handleForceField ks key prevPressed dt f =
     (let f1 = (if pressed ks key \<and> \<not> prevPressed \<and> forceCooldown f \<le> 0 \<and> forceActiveTimer f \<le> 0
                then f\<lparr>forceActiveTimer := FIELD_DURATION, forceCooldown := COOLDOWN,
                       forceMesh := Some newShield\<rparr>
                else f);
          f2 = (if forceCooldown f1 > 0 then f1\<lparr>forceCooldown := forceCooldown f1 - dt\<rparr> else f1)
      in if forceActiveTimer f2 > 0
         then
           (let elapsed = FIELD_DURATION - forceActiveTimer f2;
                f3 = f2\<lparr>forceMesh := map_option (animateShield elapsed dt) (forceMesh f2)\<rparr>;
                f4 = f3\<lparr>forceActiveTimer := forceActiveTimer f3 - dt\<rparr>
            in if forceActiveTimer f4 \<le> 0 \<and> forceMesh f4 \<noteq> None then f4\<lparr>forceMesh := None\<rparr> else f4)
         else f2)"

definition lightningKey_blocking :: "bworld \<Rightarrow> bworld" where
  "lightningKey_blocking w =
     (if \<not> gameOver w \<and> health (fighter1 w) > 0
      then
        (let xPressed = pressed (keys w) ''KeyX'';
             w1 = (if xPressed \<and> \<not> xPressedPrev w \<and> lightningCooldown w \<le> 0
                   then (shootLightning_blocking w)\<lparr>lightningCooldown := 1\<rparr> else w)
         in w1\<lparr>xPressedPrev := xPressed\<rparr>)
      else w)"

definition fireballKey_blocking :: "bworld \<Rightarrow> bworld" where
  "fireballKey_blocking w =
     (if \<not> gameOver w \<and> health (fighter2 w) > 0
      then
        (let uPressed = pressed (keys w) ''KeyU'';
             w1 = (if uPressed \<and> \<not> uPressedPrev w \<and> fireballCooldown w \<le> 0
                   then (shootFireball w)\<lparr>fireballCooldown := 1\<rparr> else w)
         in w1\<lparr>uPressedPrev := uPressed\<rparr>)
      else w)"

definition forceFields :: "real \<Rightarrow> bworld \<Rightarrow> bworld" where
  "forceFields dt w =
     (let w1 = w\<lparr>fighter1 := handleForceField (keys w) ''KeyG'' (gPressedPrev w) dt (fighter1 w)\<rparr>;
          w2 = w1\<lparr>gPressedPrev := pressed (keys w1) ''KeyG''\<rparr>;
          w3 = w2\<lparr>fighter2 := handleForceField (keys w2) ''KeyZ'' (zPressedPrev w2) dt (fighter2 w2)\<rparr>
      in w3\<lparr>zPressedPrev := pressed (keys w3) ''KeyZ''\<rparr>)"

definition animate_blocking ::
  "(group \<Rightarrow> shield option \<Rightarrow> box3) \<Rightarrow> (vec3 \<Rightarrow> box3) \<Rightarrow> real \<Rightarrow> bworld \<Rightarrow> bworld" where
  "animate_blocking boxOf meshBox current w =
     (let dt = (current - prevTime w) / 1000;
          w0 = w\<lparr>prevTime := current\<rparr>
      in if gameStarted w0
         then
           (let w1 = (if \<not> gameOver w0
                      then updateFighter_blocking_2_1 boxOf dt (updateFighter_blocking_1_2 boxOf dt w0)
                      else w0);
                w2 = tickCooldowns dt w1;
                w3 = lightningKey_blocking w2;
                w4 = fireballKey_blocking w3;
                w5 = forceFields dt w4
            in updateProjectiles_blocking boxOf meshBox dt (length (projectiles w5)) w5)
         else w0)"

section \<open>The opening bow\<close>

text \<open>
  \<^verbatim>\<open>bowFighters(callback)\<close> has the same text in all variants of the game. It looks the
  torso and the head of both characters up once and then animates them frame by frame:
  \<^verbatim>\<open>bowAnim\<close> requests the next animation frame first, on every call, and then poses
  the characters according to the time \<^verbatim>\<open>t\<close>, which advances by 1/60 per frame.

  A lookup that finds nothing yields \<^verbatim>\<open>undefined\<close>, and writing
  \<^verbatim>\<open>.rotation.x\<close> through it would raise a TypeError: \<open>write_rotation_x\<close> has that
  branch. The source guards every write with \<^verbatim>\<open>if (torso1)\<close> and so on, which is
  \<open>guarded_rotation_x\<close>.
\<close>

datatype js_error = TypeError

record bow_refs =
  torso1 :: "string option"
  torso2 :: "string option"
  head1 :: "string option"
  head2 :: "string option"

record bow =
  bow_t :: real
  boy :: group
  girl :: group
  callbackCalls :: nat

definition bowTime :: real where
  "bowTime = 0.6"

definition upTime :: real where
  "upTime = 0.6"

definition write_rotation_x :: "string option \<Rightarrow> real \<Rightarrow> group \<Rightarrow> js_error + group" where
  "write_rotation_x r v g =
     (case r of None \<Rightarrow> Inl TypeError | Some n \<Rightarrow> Inr (set_rotation_x n v g))"

definition guarded_rotation_x :: "string option \<Rightarrow> real \<Rightarrow> group \<Rightarrow> js_error + group" where
  "guarded_rotation_x r v g = (if r \<noteq> None then write_rotation_x r v g else Inr g)"

definition pose :: "bow_refs \<Rightarrow> real \<Rightarrow> bow \<Rightarrow> js_error + bow" where
  "pose r angle s =
     (case guarded_rotation_x (torso1 r) angle (boy s) of
        Inl e \<Rightarrow> Inl e
      | Inr b1 \<Rightarrow>
     (case guarded_rotation_x (torso2 r) angle (girl s) of
        Inl e \<Rightarrow> Inl e
      | Inr g1 \<Rightarrow>
     (case guarded_rotation_x (head1 r) angle b1 of
        Inl e \<Rightarrow> Inl e
      | Inr b2 \<Rightarrow>
     (case guarded_rotation_x (head2 r) angle g1 of
        Inl e \<Rightarrow> Inl e
      | Inr g2 \<Rightarrow> Inr (s\<lparr>boy := b2, girl := g2\<rparr>)))))"

definition faceEachOther :: "bow \<Rightarrow> bow" where
  "faceEachOther s =
     (let dir1 = (if vx (position (girl s)) > vx (position (boy s)) then 1 else - 1 :: int);
          dir2 = (if vx (position (boy s)) > vx (position (girl s)) then 1 else - 1 :: int)
      in s\<lparr>boy := (boy s)\<lparr>rotation := (rotation (boy s))\<lparr>vy :=
                      (if dir1 = 1 then pi / 2 else - pi / 2)\<rparr>\<rparr>,
           girl := (girl s)\<lparr>rotation := (rotation (girl s))\<lparr>vy :=
                      (if dir2 = 1 then pi / 2 else - pi / 2)\<rparr>\<rparr>\<rparr>)"

definition bowAnim :: "bow_refs \<Rightarrow> bow \<Rightarrow> js_error + bow" where
  "bowAnim r s =
     (let dt = 1 / 60
      in if bow_t s < bowTime
         then
           (let angle = (bow_t s / bowTime) * (pi / 4)
            in case pose r angle s of
                 Inl e \<Rightarrow> Inl e
               | Inr s1 \<Rightarrow> Inr (s1\<lparr>bow_t := bow_t s1 + dt\<rparr>))
         else if bow_t s < bowTime + upTime
         then
           (let progress = (bow_t s - bowTime) / upTime;
                angle = (1 - progress) * (pi / 4)
            in case pose r angle s of
                 Inl e \<Rightarrow> Inl e
               | Inr s1 \<Rightarrow> Inr (s1\<lparr>bow_t := bow_t s1 + dt\<rparr>))
         else
           (case pose r 0 s of
              Inl e \<Rightarrow> Inl e
            | Inr s1 \<Rightarrow>
                (let s2 = faceEachOther s1
                 in Inr (s2\<lparr>callbackCalls := Suc (callbackCalls s2)\<rparr>))))"

text \<open>
  The first \<open>n\<close> animation frames, stopping at an error. Nothing ever cancels the
  request for the next frame, so the frames go on after the bow is over.
\<close>

fun bowFrames :: "nat \<Rightarrow> bow_refs \<Rightarrow> bow \<Rightarrow> js_error + bow" where
  "bowFrames 0 r s = Inr s"
| "bowFrames (Suc n) r s =
     (case bowAnim r s of Inl e \<Rightarrow> Inl e | Inr s1 \<Rightarrow> bowFrames n r s1)"

definition bowFighters :: "nat \<Rightarrow> group \<Rightarrow> group \<Rightarrow> js_error + bow" where
  "bowFighters n b g =
     bowFrames n
       \<lparr>torso1 = getObjectByName b ''torso'', torso2 = getObjectByName g ''torso'',
        head1 = getObjectByName b ''head'', head2 = getObjectByName g ''head''\<rparr>
       \<lparr>bow_t = 0, boy = b, girl = g, callbackCalls = 0\<rparr>"

section \<open>The arena game: health and timers\<close>

text \<open>
  The largest variant of the game (\<^verbatim>\<open>scene.ts\<close> with \<^verbatim>\<open>security.ts\<close>) adds
  characters, an anti-cheat system and more special attacks. Modelled here are the statements
  of it that write a fighter's health, with the calls of \<^verbatim>\<open>updateHealthBars\<close> and
  \<^verbatim>\<open>endGame\<close> that follow them, and the timer block of its \<^verbatim>\<open>updateFighter\<close>, each
  as it stands in the source.

  In this variant a health can be any JavaScript number, \<^verbatim>\<open>NaN\<close> included, because
  \<^verbatim>\<open>updateHealthBars\<close> may read it back from \<^verbatim>\<open>localStorage\<close>. \<^verbatim>\<open>Math.max\<close> and
  \<^verbatim>\<open>Math.min\<close> return \<^verbatim>\<open>NaN\<close> when an argument is \<^verbatim>\<open>NaN\<close>, so does the
  subtraction, and every comparison with \<^verbatim>\<open>NaN\<close> is false.
\<close>

datatype jsnum = Num real | NaN

definition js_max :: "jsnum \<Rightarrow> jsnum \<Rightarrow> jsnum" where
  "js_max a b = (case a of NaN \<Rightarrow> NaN | Num x \<Rightarrow> (case b of NaN \<Rightarrow> NaN | Num y \<Rightarrow> Num (max x y)))"

definition js_min :: "jsnum \<Rightarrow> jsnum \<Rightarrow> jsnum" where
  "js_min a b = (case a of NaN \<Rightarrow> NaN | Num x \<Rightarrow> (case b of NaN \<Rightarrow> NaN | Num y \<Rightarrow> Num (min x y)))"

definition js_minus :: "jsnum \<Rightarrow> jsnum \<Rightarrow> jsnum" where
  "js_minus a b = (case a of NaN \<Rightarrow> NaN | Num x \<Rightarrow> (case b of NaN \<Rightarrow> NaN | Num y \<Rightarrow> Num (x - y)))"

text \<open>The tests \<^verbatim>\<open>h <= 0\<close> and \<^verbatim>\<open>h === 0\<close>.\<close>

definition js_le_0 :: "jsnum \<Rightarrow> bool" where
  "js_le_0 h = (case h of NaN \<Rightarrow> False | Num x \<Rightarrow> x \<le> 0)"

definition js_is_0 :: "jsnum \<Rightarrow> bool" where
  "js_is_0 h = (case h of NaN \<Rightarrow> False | Num x \<Rightarrow> x = 0)"

record SecurityConfig =
  MIN_HEALTH :: real
  MAX_HEALTH :: real
  MAX_SPEED :: real
  BREACH_COOLDOWN :: real
  BREACH_THRESHOLD :: real
  ATTACK_COOLDOWN :: real
  MAX_ATTACKS_PER_SECOND :: real
  MAX_POSITION_CHANGE :: real
  MAX_TELEPORTS_PER_SECOND :: real
  POSITION_CHECK_INTERVAL :: real
  VIOLATION_THRESHOLD :: real
  ANTI_CHEAT_ENABLED :: bool
  DETECTION_INTERVAL :: real
  MAX_HEALTH_CHANGE_RATE :: real

definition SECURITY_CONFIG :: SecurityConfig where
  "SECURITY_CONFIG =
     \<lparr>MIN_HEALTH = 0, MAX_HEALTH = 100, MAX_SPEED = 25, BREACH_COOLDOWN = 5000,
      BREACH_THRESHOLD = 15, ATTACK_COOLDOWN = 80, MAX_ATTACKS_PER_SECOND = 15,
      MAX_POSITION_CHANGE = 20, MAX_TELEPORTS_PER_SECOND = 8, POSITION_CHECK_INTERVAL = 200,
      VIOLATION_THRESHOLD = 20, ANTI_CHEAT_ENABLED = False, DETECTION_INTERVAL = 1000,
      MAX_HEALTH_CHANGE_RATE = 75\<rparr>"

text \<open>\<^verbatim>\<open>validateHealth\<close> of \<^verbatim>\<open>security.ts\<close>.\<close>

definition validateHealth :: "jsnum \<Rightarrow> jsnum" where
  "validateHealth h =
     js_max (Num (MIN_HEALTH SECURITY_CONFIG)) (js_min (Num (MAX_HEALTH SECURITY_CONFIG)) h)"

text \<open>
  \<^verbatim>\<open>validateHealth\<close> of \<^verbatim>\<open>scene.ts\<close>, declared inside \<^verbatim>\<open>init\<close> with its own
  constants; it hides the imported one there.
\<close>

definition scene_MAX_HEALTH :: real where
  "scene_MAX_HEALTH = 100"

definition scene_MIN_HEALTH :: real where
  "scene_MIN_HEALTH = 0"

definition validateHealth_scene :: "jsnum \<Rightarrow> jsnum" where
  "validateHealth_scene h = js_max (Num scene_MIN_HEALTH) (js_min (Num scene_MAX_HEALTH) h)"

text \<open>
  The fields of the arena's \<^verbatim>\<open>Fighter\<close> that the modelled statements read or write.
  Those that the fighters of the first two variants also have carry the prefix \<open>s_\<close>, since
  a field of a record is a constant of the theory.
\<close>

datatype characterType = roblox | robot | ninja | bunny

record sfighter =
  s_health :: jsnum
  s_isAttacking :: bool
  s_attackTimer :: real
  s_attackType :: "attack option"
  s_isBlocking :: bool
  s_blockTimer :: real
  s_forceActiveTimer :: real
  characterType :: characterType
  isOPForm :: bool

text \<open>
  The state that these statements share: the two fighters, \<^verbatim>\<open>gameOver\<close>, and the two
  items of \<^verbatim>\<open>localStorage\<close> in which \<^verbatim>\<open>updateHealthBars\<close> keeps the healths. An item
  is kept as the number that \<^verbatim>\<open>Number()\<close> converts its text to; the text that
  \<^verbatim>\<open>toString()\<close> writes for a number converts back to that number. \<open>None\<close> stands for
  an item that is missing or is the empty text, which are the falsy cases of
  \<^verbatim>\<open>if (stored1)\<close>. The storage belongs to the origin of the page and not to the game:
  the game finds in it whatever was left there.
\<close>

record arena =
  s_fighter1 :: sfighter
  s_fighter2 :: sfighter
  s_gameOver :: bool
  fighter1Health :: "jsnum option"
  fighter2Health :: "jsnum option"

datatype side = Fighter1 | Fighter2

definition fighter_of :: "side \<Rightarrow> arena \<Rightarrow> sfighter" where
  "fighter_of sd a = (case sd of Fighter1 \<Rightarrow> s_fighter1 a | Fighter2 \<Rightarrow> s_fighter2 a)"

definition with_fighter :: "side \<Rightarrow> (sfighter \<Rightarrow> sfighter) \<Rightarrow> arena \<Rightarrow> arena" where
  "with_fighter sd f a =
     (case sd of Fighter1 \<Rightarrow> a\<lparr>s_fighter1 := f (s_fighter1 a)\<rparr>
               | Fighter2 \<Rightarrow> a\<lparr>s_fighter2 := f (s_fighter2 a)\<rparr>)"

text \<open>
  \<^verbatim>\<open>updateHealthBars\<close> of \<^verbatim>\<open>scene.ts\<close>. Its \<^verbatim>\<open>try\<close> block validates the two
  healths, rebuilds and redraws the bars and then stores the healths; the calls into the
  document and \<^verbatim>\<open>localStorage.setItem\<close> can throw (a full or a refused storage), which
  is the argument \<open>attempt\<close>: the block completes, or it throws before the first item is
  stored, or it throws when the second item is stored. The \<^verbatim>\<open>catch\<close> block is
  \<open>recover\<close>: it assigns the stored numbers to the healths as they are.
\<close>

datatype attempt = Completes | Throws | Throws_at_second_item

definition recover :: "arena \<Rightarrow> arena" where
  "recover a =
     (let stored1 = fighter1Health a;
          stored2 = fighter2Health a;
          a1 = (case stored1 of None \<Rightarrow> a
                | Some n \<Rightarrow> a\<lparr>s_fighter1 := (s_fighter1 a)\<lparr>s_health := n\<rparr>\<rparr>)
      in case stored2 of None \<Rightarrow> a1
         | Some n \<Rightarrow> a1\<lparr>s_fighter2 := (s_fighter2 a1)\<lparr>s_health := n\<rparr>\<rparr>)"

definition updateHealthBars_scene :: "attempt \<Rightarrow> arena \<Rightarrow> arena" where
  "updateHealthBars_scene att a =
     (let a1 = a\<lparr>s_fighter1 :=
                  (s_fighter1 a)\<lparr>s_health := validateHealth_scene (s_health (s_fighter1 a))\<rparr>\<rparr>;
          a2 = a1\<lparr>s_fighter2 :=
                  (s_fighter2 a1)\<lparr>s_health := validateHealth_scene (s_health (s_fighter2 a1))\<rparr>\<rparr>
      in case att of
           Completes \<Rightarrow>
             a2\<lparr>fighter1Health := Some (s_health (s_fighter1 a2)),
                fighter2Health := Some (s_health (s_fighter2 a2))\<rparr>
         | Throws \<Rightarrow> recover a2
         | Throws_at_second_item \<Rightarrow>
             recover (a2\<lparr>fighter1Health := Some (s_health (s_fighter1 a2))\<rparr>))"

definition endGame_scene :: "arena \<Rightarrow> arena" where
  "endGame_scene a = a\<lparr>s_gameOver := True\<rparr>"

text \<open>Step 1 of \<^verbatim>\<open>updateFighter\<close>, behind its guard.\<close>

definition healthValidation :: "bool \<Rightarrow> sfighter \<Rightarrow> sfighter" where
  "healthValidation over f =
     (if over \<or> js_le_0 (s_health f) then f
      else f\<lparr>s_health := validateHealth_scene (s_health f)\<rparr>)"

text \<open>\<^verbatim>\<open>antiCheatSystem.punishViolation\<close>: the penalty on the fighter found cheating.\<close>

definition punishViolation :: "sfighter \<Rightarrow> sfighter" where
  "punishViolation f =
     f\<lparr>s_health := js_max (Num 20) (js_minus (s_health f) (Num 30)), s_attackTimer := 2,
       s_isBlocking := False, isOPForm := False\<rparr>"

text \<open>The block \<^verbatim>\<open>// Update timers\<close> of \<^verbatim>\<open>updateFighter\<close>.\<close>

definition updateTimers :: "real \<Rightarrow> sfighter \<Rightarrow> sfighter" where
  "updateTimers dt f =
     (let f1 = (if s_attackTimer f > 0
                then (let f' = f\<lparr>s_attackTimer := s_attackTimer f - dt\<rparr>
                      in if s_attackTimer f' \<le> 0
                         then f'\<lparr>s_isAttacking := False, s_attackType := None\<rparr>
                         else f')
                else f)
      in if s_blockTimer f1 > 0
         then (let f' = f1\<lparr>s_blockTimer := s_blockTimer f1 - dt\<rparr>
               in if s_blockTimer f' \<le> 0 then f'\<lparr>s_isBlocking := False\<rparr> else f')
         else f1)"

text \<open>
  The places that take health from a fighter: a projectile of the girl that meets the boy,
  the lightning of \<^verbatim>\<open>performRobloxSpecial\<close>, one ring of \<^verbatim>\<open>performRobotSpecial\<close> in
  one of its frames, and a rabbit of the bunny army that has reached its target. The first
  three call \<^verbatim>\<open>updateHealthBars\<close> right after, and \<^verbatim>\<open>endGame\<close> when the health is 0
  then.
\<close>

definition projectileHit :: "attempt \<Rightarrow> arena \<Rightarrow> arena" where
  "projectileHit att a =
     (let a1 = (if \<not> s_isBlocking (s_fighter1 a) \<and> s_forceActiveTimer (s_fighter1 a) \<le> 0
                then a\<lparr>s_fighter1 := (s_fighter1 a)\<lparr>s_health :=
                         js_max (Num 0) (js_minus (s_health (s_fighter1 a)) (Num 10))\<rparr>\<rparr>
                else a);
          a2 = updateHealthBars_scene att a1
      in if js_is_0 (s_health (s_fighter1 a2)) \<and> \<not> s_gameOver a2 then endGame_scene a2 else a2)"

definition robloxSpecialDamage :: "attempt \<Rightarrow> side \<Rightarrow> arena \<Rightarrow> arena" where
  "robloxSpecialDamage att defender a =
     (if \<not> s_isBlocking (fighter_of defender a) \<and> s_forceActiveTimer (fighter_of defender a) \<le> 0
      then
        (let a1 = with_fighter defender
                    (\<lambda>d. d\<lparr>s_health := js_max (Num 0) (js_minus (s_health d) (Num 7))\<rparr>) a;
             a2 = updateHealthBars_scene att a1
         in if js_is_0 (s_health (fighter_of defender a2)) then endGame_scene a2 else a2)
      else a)"

definition robotRingDamage :: "attempt \<Rightarrow> box3 \<Rightarrow> box3 \<Rightarrow> side \<Rightarrow> arena \<Rightarrow> arena" where
  "robotRingDamage att ringBox oppBox defender a =
     (if intersectsBox ringBox oppBox \<and> \<not> s_isBlocking (fighter_of defender a) \<and>
         s_forceActiveTimer (fighter_of defender a) \<le> 0
      then
        (let a1 = with_fighter defender
                    (\<lambda>d. d\<lparr>s_health := js_max (Num 0) (js_minus (s_health d) (Num 2))\<rparr>) a;
             a2 = updateHealthBars_scene att a1
         in if js_is_0 (s_health (fighter_of defender a2)) then endGame_scene a2 else a2)
      else a)"

definition bunnyHitDamage :: "sfighter \<Rightarrow> sfighter" where
  "bunnyHitDamage opponent =
     (if \<not> s_isBlocking opponent
      then opponent\<lparr>s_health := js_max (Num 0) (js_minus (s_health opponent) (Num 20))\<rparr>
      else opponent)"

section \<open>The cubes demo\<close>

text \<open>
  The state of \<^verbatim>\<open>cubes/src/main.ts\<close>. Meshes are objects with an identity, shared
  between the list \<^verbatim>\<open>cubes\<close> and the scene, so they live in a store and are named by
  references; \<open>next_ref\<close> is the next reference that \<^verbatim>\<open>new THREE.Mesh\<close> hands out. The
  children of the scene are a set of references: the library keeps an object at most once
  among them. A material is a clone of one of the two base materials, with the hue of its
  colour shifted by \<open>hue_offset\<close>.
\<close>

datatype geometry = cubeGeometry | sphereGeometry

datatype base_material = cubeBaseMaterial | sphereBaseMaterial

record material =
  base :: base_material
  hue_offset :: real

record mesh = object3d +
  geometry :: geometry
  material :: material

record cubes_demo =
  rotationSpeed :: real
  isSphere :: bool
  cubes :: "nat list"
  heap :: "nat \<rightharpoonup> mesh"
  scene :: "nat set"
  next_ref :: nat

definition SPEED_THRESHOLD :: real where
  "SPEED_THRESHOLD = 1.0"

definition currentGeometry :: "cubes_demo \<Rightarrow> geometry" where
  "currentGeometry s = (if isSphere s then sphereGeometry else cubeGeometry)"

definition clone :: "base_material \<Rightarrow> material" where
  "clone b = \<lparr>base = b, hue_offset = 0\<rparr>"

definition offsetHSL_h :: "real \<Rightarrow> material \<Rightarrow> material" where
  "offsetHSL_h h m = m\<lparr>hue_offset := hue_offset m + h\<rparr>"

text \<open>
  One round of the loop of \<^verbatim>\<open>createCubes(count)\<close>, for the index \<open>i\<close>: the mesh it
  builds, and what it does with it.
\<close>

definition newCube :: "nat \<Rightarrow> nat \<Rightarrow> cubes_demo \<Rightarrow> mesh" where
  "newCube count i s =
     (let spacing = 1.5 :: real;
          gridSize = \<lceil>sqrt (real count)\<rceil>;
          material0 = clone (if isSphere s then sphereBaseMaterial else cubeBaseMaterial);
          material1 = (if \<not> isSphere s then offsetHSL_h (real i / real count) material0
                       else material0);
          row = \<lfloor>real i / real_of_int gridSize\<rfloor>;
          col = int i mod gridSize
      in \<lparr>position = \<lparr>vx = (real_of_int col - (real_of_int gridSize - 1) / 2) * spacing,
                        vy = (real_of_int row - (real_of_int gridSize - 1) / 2) * spacing,
                        vz = 0\<rparr>,
          rotation = \<lparr>vx = 0, vy = 0, vz = 0\<rparr>,
          geometry = currentGeometry s,
          material = material1\<rparr>)"

definition createCube :: "nat \<Rightarrow> nat \<Rightarrow> cubes_demo \<Rightarrow> cubes_demo" where
  "createCube count i s =
     (let cube = newCube count i s;
          r = next_ref s
      in s\<lparr>heap := (heap s)(r \<mapsto> cube),
           next_ref := Suc r,
           scene := insert r (scene s),
           cubes := cubes s @ [r]\<rparr>)"

definition createCubes :: "nat \<Rightarrow> cubes_demo \<Rightarrow> cubes_demo" where
  "createCubes count s =
     fold (createCube count) [0..<count] (s\<lparr>scene := scene s - set (cubes s), cubes := []\<rparr>)"

text \<open>\<^verbatim>\<open>cubes.forEach(c => ...)\<close> with a function that changes the mesh.\<close>

definition forEach_cube :: "(mesh \<Rightarrow> mesh) \<Rightarrow> cubes_demo \<Rightarrow> cubes_demo" where
  "forEach_cube f s =
     s\<lparr>heap := fold (\<lambda>r h. case h r of None \<Rightarrow> h | Some c \<Rightarrow> h(r \<mapsto> f c)) (cubes s) (heap s)\<rparr>"

text \<open>
  \<^verbatim>\<open>parseInt(event.key, 10)\<close> on a string of decimal digits, the only strings the handler
  passes to it.
\<close>

definition parseInt10 :: "string \<Rightarrow> nat" where
  "parseInt10 str = foldl (\<lambda>a c. 10 * a + (of_char c - 48)) 0 str"

text \<open>The listener for \<^verbatim>\<open>keydown\<close>; \<open>key\<close> is \<^verbatim>\<open>event.key\<close>.\<close>

definition keydown :: "string \<Rightarrow> cubes_demo \<Rightarrow> cubes_demo" where
  "keydown key s =
     (let step = 0.1 :: real
      in if key = ''ArrowUp''
         then forEach_cube (\<lambda>c. c\<lparr>position := (position c)\<lparr>vy := vy (position c) + step\<rparr>\<rparr>) s
         else if key = ''ArrowDown''
         then forEach_cube (\<lambda>c. c\<lparr>position := (position c)\<lparr>vy := vy (position c) - step\<rparr>\<rparr>) s
         else if key = ''ArrowLeft''
         then forEach_cube (\<lambda>c. c\<lparr>position := (position c)\<lparr>vx := vx (position c) - step\<rparr>\<rparr>) s
         else if key = ''ArrowRight''
         then forEach_cube (\<lambda>c. c\<lparr>position := (position c)\<lparr>vx := vx (position c) + step\<rparr>\<rparr>) s
         else if key = ''q'' \<or> key = ''Q''
         then
           (let s1 = s\<lparr>rotationSpeed := max 0 (rotationSpeed s - 0.005)\<rparr>
            in if rotationSpeed s1 < SPEED_THRESHOLD \<and> isSphere s1
               then forEach_cube (\<lambda>c. c\<lparr>geometry := cubeGeometry, material := clone cubeBaseMaterial\<rparr>)
                      (s1\<lparr>isSphere := False\<rparr>)
               else s1)
         else if key = ''w'' \<or> key = ''W''
         then
           (let s1 = s\<lparr>rotationSpeed := rotationSpeed s + 0.005\<rparr>
            in if rotationSpeed s1 \<ge> SPEED_THRESHOLD \<and> \<not> isSphere s1
               then forEach_cube (\<lambda>c. c\<lparr>geometry := sphereGeometry, material := clone sphereBaseMaterial\<rparr>)
                      (s1\<lparr>isSphere := True\<rparr>)
               else s1)
         else if key = ''1'' \<or> key = ''2'' \<or> key = ''3'' \<or> key = ''4'' \<or> key = ''5'' \<or>
                 key = ''6'' \<or> key = ''7'' \<or> key = ''8'' \<or> key = ''9''
         then createCubes (parseInt10 key) s
         else s)"

section \<open>The deployment workflow\<close>

text \<open>
  The job \<^verbatim>\<open>build-and-deploy\<close> of the workflow. Its third step is a shell script run
  under \<^verbatim>\<open>set -e\<close>: the first command that fails ends the script with that status. The
  programs the script calls are not part of the repository, so what they do to the file
  system and whether they succeed is the parameter \<open>exec\<close> (status 0 is success), and the
  test \<^verbatim>\<open>[ -d path ]\<close> is the parameter \<open>is_dir\<close>, over any type of file systems.
  The shell state holds the file system and what was written to standard output and to
  standard error.
\<close>

datatype cmd =
    Rm_rf string
  | Mkdir_p string
  | Pushd string
  | Popd
  | Npm_ci
  | Npm_run_build
  | Cp_r string string
  | Write_catalog string

record 'fs shell =
  fs :: 'fs
  stdout :: "string list"
  stderr :: "string list"

text \<open>A script that has ended carries its exit status; otherwise it is still running.\<close>

type_synonym 'fs outcome = "(nat \<times> 'fs shell) + 'fs shell"

definition run_cmd :: "(cmd \<Rightarrow> 'fs \<Rightarrow> nat \<times> 'fs) \<Rightarrow> cmd \<Rightarrow> 'fs shell \<Rightarrow> 'fs outcome" where
  "run_cmd exec c st =
     (case exec c (fs st) of
        (status, fs') \<Rightarrow> if status = 0 then Inr (st\<lparr>fs := fs'\<rparr>) else Inl (status, st\<lparr>fs := fs'\<rparr>))"

definition and_then :: "'fs outcome \<Rightarrow> ('fs shell \<Rightarrow> 'fs outcome) \<Rightarrow> 'fs outcome" where
  "and_then r k = (case r of Inl e \<Rightarrow> Inl e | Inr st \<Rightarrow> k st)"

definition SITE_DIR :: string where
  "SITE_DIR = ''site''"

definition GAMES :: "string list" where
  "GAMES = [''fighters'', ''cubes'']"

text \<open>
  The two messages of the script start with a pictograph, written here by its bytes; the
  \<^verbatim>\<open>\n\<close> of the first one is not interpreted by \<^verbatim>\<open>echo\<close>.
\<close>

definition building_message :: "string \<Rightarrow> string" where
  "building_message game =
     [CHR 0x5C, CHR ''n'', CHR 0xF0, CHR 0x9F, CHR 0x91, CHR 0x89] @ '' Building '' @ game"

definition missing_message :: "string \<Rightarrow> string" where
  "missing_message game =
     [CHR 0xE2, CHR 0x9D, CHR 0x8C] @ '' Could not find build output directory for '' @ game"

text \<open>The choice of \<^verbatim>\<open>OUT_DIR\<close>; \<open>None\<close> is the branch that exits.\<close>

definition out_dir :: "('fs \<Rightarrow> string \<Rightarrow> bool) \<Rightarrow> 'fs \<Rightarrow> string \<Rightarrow> string option" where
  "out_dir is_dir f game =
     (if is_dir f (game @ ''/dist'') then Some (game @ ''/dist'')
      else if is_dir f (game @ ''/build'') then Some (game @ ''/build'')
      else None)"

text \<open>The body of the loop over the games.\<close>

definition build_game ::
  "(cmd \<Rightarrow> 'fs \<Rightarrow> nat \<times> 'fs) \<Rightarrow> ('fs \<Rightarrow> string \<Rightarrow> bool) \<Rightarrow> string \<Rightarrow> 'fs shell \<Rightarrow> 'fs outcome" where
  "build_game exec is_dir game st =
     and_then (Inr (st\<lparr>stdout := stdout st @ [building_message game]\<rparr>)) (\<lambda>st.
     and_then (run_cmd exec (Pushd game) st) (\<lambda>st.
     and_then (run_cmd exec Npm_ci st) (\<lambda>st.
     and_then (run_cmd exec Npm_run_build st) (\<lambda>st.
     and_then (run_cmd exec Popd st) (\<lambda>st.
       case out_dir is_dir (fs st) game of
         None \<Rightarrow> Inl (1, st\<lparr>stderr := stderr st @ [missing_message game]\<rparr>)
       | Some OUT_DIR \<Rightarrow>
           and_then (run_cmd exec (Mkdir_p (SITE_DIR @ ''/'' @ game)) st) (\<lambda>st.
           run_cmd exec (Cp_r (OUT_DIR @ ''/*'') (SITE_DIR @ ''/'' @ game @ ''/'')) st))))))"

fun build_games ::
  "(cmd \<Rightarrow> 'fs \<Rightarrow> nat \<times> 'fs) \<Rightarrow> ('fs \<Rightarrow> string \<Rightarrow> bool) \<Rightarrow> string list \<Rightarrow> 'fs shell \<Rightarrow> 'fs outcome" where
  "build_games exec is_dir [] st = Inr st"
| "build_games exec is_dir (game # games) st =
     and_then (build_game exec is_dir game st) (build_games exec is_dir games)"

text \<open>The whole script; a script that reaches its end has the status of its last command, 0.\<close>

definition build_script ::
  "(cmd \<Rightarrow> 'fs \<Rightarrow> nat \<times> 'fs) \<Rightarrow> ('fs \<Rightarrow> string \<Rightarrow> bool) \<Rightarrow> 'fs shell \<Rightarrow> nat \<times> 'fs shell" where
  "build_script exec is_dir st =
     (case and_then (run_cmd exec (Rm_rf SITE_DIR) st) (\<lambda>st.
           and_then (run_cmd exec (Mkdir_p SITE_DIR) st) (\<lambda>st.
           and_then (build_games exec is_dir GAMES st) (\<lambda>st.
           run_cmd exec (Write_catalog (SITE_DIR @ ''/index.html'')) st))) of
        Inl (status, st') \<Rightarrow> (status, st')
      | Inr st' \<Rightarrow> (0, st'))"

text \<open>
  The steps of the job. A step runs only if all steps before it have succeeded; the steps
  that use an action are the parameter \<open>action\<close>. The result is the list of the steps that
  ran, each with its status, and the final shell state.
\<close>

datatype step = Checkout_repository | Setup_Node | Build_games | Upload_Pages_artifact | Deploy_to_GitHub_Pages

definition run_step ::
  "(step \<Rightarrow> 'fs \<Rightarrow> nat \<times> 'fs) \<Rightarrow> (cmd \<Rightarrow> 'fs \<Rightarrow> nat \<times> 'fs) \<Rightarrow> ('fs \<Rightarrow> string \<Rightarrow> bool) \<Rightarrow>
     step \<Rightarrow> 'fs shell \<Rightarrow> nat \<times> 'fs shell" where
  "run_step action exec is_dir stp st =
     (if stp = Build_games then build_script exec is_dir st
      else (case action stp (fs st) of (status, fs') \<Rightarrow> (status, st\<lparr>fs := fs'\<rparr>)))"

fun run_steps ::
  "(step \<Rightarrow> 'fs \<Rightarrow> nat \<times> 'fs) \<Rightarrow> (cmd \<Rightarrow> 'fs \<Rightarrow> nat \<times> 'fs) \<Rightarrow> ('fs \<Rightarrow> string \<Rightarrow> bool) \<Rightarrow>
     step list \<Rightarrow> 'fs shell \<Rightarrow> (step \<times> nat) list \<times> 'fs shell" where
  "run_steps action exec is_dir [] st = ([], st)"
| "run_steps action exec is_dir (stp # stps) st =
     (case run_step action exec is_dir stp st of
        (status, st') \<Rightarrow>
          if status = 0
          then (case run_steps action exec is_dir stps st' of
                  (rest, st'') \<Rightarrow> ((stp, status) # rest, st''))
          else ([(stp, status)], st'))"

definition build_and_deploy ::
  "(step \<Rightarrow> 'fs \<Rightarrow> nat \<times> 'fs) \<Rightarrow> (cmd \<Rightarrow> 'fs \<Rightarrow> nat \<times> 'fs) \<Rightarrow> ('fs \<Rightarrow> string \<Rightarrow> bool) \<Rightarrow>
     'fs shell \<Rightarrow> (step \<times> nat) list \<times> 'fs shell" where
  "build_and_deploy action exec is_dir st =
     run_steps action exec is_dir
       [Checkout_repository, Setup_Node, Build_games, Upload_Pages_artifact, Deploy_to_GitHub_Pages] st"

section \<open>Initial states and examples\<close>

text \<open>
  The characters and fighters as \<^verbatim>\<open>init\<close> builds them: the boy stands at \<open>x = -3\<close>,
  the girl at \<open>x = 3\<close>, and the parts that carry a name are the head, the torso, the right
  arm and the right leg.
\<close>

definition part :: "real \<Rightarrow> real \<Rightarrow> object3d" where
  "part px py = \<lparr>position = \<lparr>vx = px, vy = py, vz = 0\<rparr>, rotation = \<lparr>vx = 0, vy = 0, vz = 0\<rparr>\<rparr>"

definition boy_init :: group where
  "boy_init =
     \<lparr>position = \<lparr>vx = - 3, vy = 0, vz = 0\<rparr>, rotation = \<lparr>vx = 0, vy = 0, vz = 0\<rparr>,
      objects = [''head'' \<mapsto> part 0 3.5, ''torso'' \<mapsto> part 0 2.25,
                 ''rightArm'' \<mapsto> part 0.95 2.25, ''rightLeg'' \<mapsto> part 0.3 0.75]\<rparr>"

definition girl_init :: group where
  "girl_init =
     \<lparr>position = \<lparr>vx = 3, vy = 0, vz = 0\<rparr>, rotation = \<lparr>vx = 0, vy = 0, vz = 0\<rparr>,
      objects = [''head'' \<mapsto> part 0 3.5, ''torso'' \<mapsto> part 0 2.05,
                 ''rightArm'' \<mapsto> part 0.95 2.25, ''rightLeg'' \<mapsto> part 0.3 0.6]\<rparr>"

definition fighter1_init :: "unit fighter" where
  "fighter1_init =
     \<lparr>group = boy_init, facing = 1, health = 100, isAttacking = False, attackTimer = 0,
      attackLimb = getObjectByName boy_init ''rightArm'', attackType = None,
      controls = \<lparr>left = ''KeyA'', right = ''KeyD'', punch = ''KeyF'', kick = ''KeyG''\<rparr>\<rparr>"

definition fighter2_init :: "unit fighter" where
  "fighter2_init =
     \<lparr>group = girl_init, facing = - 1, health = 100, isAttacking = False, attackTimer = 0,
      attackLimb = getObjectByName girl_init ''rightLeg'', attackType = None,
      controls = \<lparr>left = ''ArrowLeft'', right = ''ArrowRight'', punch = ''Slash'', kick = ''KeyL''\<rparr>\<rparr>"

text \<open>
  For the examples, a box that lies inside the box that \<^verbatim>\<open>Box3.setFromObject\<close> gives for
  a character of the game in any pose. Both characters carry, on a head at height 3.5, a
  block of hair that is 1.3 wide and 1.3 deep, and stand on legs that start at height 0; so
  the box of a character, turned by a quarter turn to either side, reaches at least 0.65 to
  either side of the position of the group along \<open>x\<close> and \<open>z\<close> and from 0 up to 4 along \<open>y\<close>.
  Two characters for which these boxes overlap therefore overlap in the game. In the other
  direction, no part of a character reaches 0.78 from the position along \<open>x\<close> (the farthest
  is an arm or a leg swung out), so that characters more than 1.56 apart along \<open>x\<close> do not
  overlap in the game either. The examples use the box only for characters that are less than
  1.3 or more than 1.56 apart, where it gives the verdict of the game.
\<close>

definition sampleBox :: "group \<Rightarrow> box3" where
  "sampleBox g =
     \<lparr>bmin = \<lparr>vx = vx (position g) - 0.65, vy = vy (position g), vz = vz (position g) - 0.65\<rparr>,
      bmax = \<lparr>vx = vx (position g) + 0.65, vy = vy (position g) + 4, vz = vz (position g) + 0.65\<rparr>\<rparr>"

definition punch_and_kick_down :: keymap where
  "punch_and_kick_down = [''KeyF'' \<mapsto> True, ''KeyG'' \<mapsto> True]"

text \<open>
  The fighter in the pose in which \<^verbatim>\<open>updateFighter\<close> takes its bounding box: turned and
  moved, with the attack started, the timer run down by \<open>dt\<close> and the limb swung.
\<close>

definition strikePose :: "keymap \<Rightarrow> real \<Rightarrow> unit fighter \<Rightarrow> unit fighter \<Rightarrow> unit fighter" where
  "strikePose ks dt f opponent =
     (let f2 = movement ks dt (faceOpponent f opponent)
      in animateLimb (tickAttack dt (startAttack (requestedAttack ks f2) f2)))"

definition strikePose_blocking :: "keymap \<Rightarrow> real \<Rightarrow> bfighter \<Rightarrow> bfighter \<Rightarrow> bfighter" where
  "strikePose_blocking ks dt f opponent =
     (let f3 = updateBlocking ks dt (movement ks dt (faceOpponent f opponent))
      in animateLimb (tickAttack dt (startAttack (requestedAttack_blocking ks f3) f3)))"

text \<open>The fighters of the blocking variant as \<^verbatim>\<open>init\<close> builds them, and examples.\<close>

definition bfighter1_init :: bfighter where
  "bfighter1_init =
     \<lparr>group = boy_init, facing = 1, health = 100, isAttacking = False, attackTimer = 0,
      attackLimb = getObjectByName boy_init ''rightArm'', attackType = None,
      controls = \<lparr>left = ''KeyA'', right = ''KeyD'', punch = ''KeyF'', kick = ''KeyH'',
                  block = ''KeyR''\<rparr>,
      isBlocking = False, blockTimer = 0, forceActiveTimer = 0, forceCooldown = 0,
      forceMesh = None, shieldKey = ''KeyG''\<rparr>"

definition bfighter2_init :: bfighter where
  "bfighter2_init =
     \<lparr>group = girl_init, facing = - 1, health = 100, isAttacking = False, attackTimer = 0,
      attackLimb = getObjectByName girl_init ''rightLeg'', attackType = None,
      controls = \<lparr>left = ''ArrowLeft'', right = ''ArrowRight'', punch = ''Slash'', kick = ''KeyL'',
                  block = ''KeyP''\<rparr>,
      isBlocking = False, blockTimer = 0, forceActiveTimer = 0, forceCooldown = 0,
      forceMesh = None, shieldKey = ''KeyZ''\<rparr>"

text \<open>
  With a force field the group also holds the spheres of the shield, of radius 1.6 and 1.7
  around the height 1.75 and scaled by a factor between 0.85 and 1.15: the box reaches at
  least 1.4 to either side.
\<close>

definition sampleBox_shield :: "group \<Rightarrow> shield option \<Rightarrow> box3" where
  "sampleBox_shield g m =
     (case m of
        None \<Rightarrow> sampleBox g
      | Some sh \<Rightarrow>
          \<lparr>bmin = \<lparr>vx = vx (position g) - 1.4, vy = vy (position g), vz = vz (position g) - 1.4\<rparr>,
           bmax = \<lparr>vx = vx (position g) + 1.4, vy = vy (position g) + 4, vz = vz (position g) + 1.4\<rparr>\<rparr>)"

definition no_keys :: keymap where
  "no_keys = Map.empty"

definition near_girl :: group where
  "near_girl = set_position_x 2 boy_init"

definition striker :: "unit fighter" where
  "striker = fighter1_init\<lparr>group := near_girl\<rparr>"

definition striker_blocking :: bfighter where
  "striker_blocking = bfighter1_init\<lparr>group := near_girl\<rparr>"

definition world_init :: "(unit, unit) world" where
  "world_init =
     \<lparr>fighter1 = fighter1_init, fighter2 = fighter2_init, keys = no_keys, gameStarted = False,
      gameOver = False, lightningCooldown = 0, xPressedPrev = False, fireballCooldown = 0,
      uPressedPrev = False, projectiles = [], prevTime = 0, bar1_width = 200, bar2_width = 200,
      healthBarUpdates = 0, lightningShots = 0, fireballShots = 0, overlays = []\<rparr>"

text \<open>
  A frame of 250 ms in which the boy, who has 10 health left and stands at 0.875, starts a
  punch while the girl, at 2.625, steps to the left and punches too: \<^verbatim>\<open>animate\<close> updates
  the boy first and the girl second, with the same key table and the same \<open>dt\<close>.
\<close>

definition strike_keys :: keymap where
  "strike_keys = [''KeyF'' \<mapsto> True, ''ArrowLeft'' \<mapsto> True, ''Slash'' \<mapsto> True]"

definition boy_hurt :: "unit fighter" where
  "boy_hurt = fighter1_init\<lparr>group := set_position_x 0.875 boy_init, health := 10\<rparr>"

definition girl_near :: "unit fighter" where
  "girl_near = fighter2_init\<lparr>group := set_position_x 2.625 girl_init\<rparr>"

definition after_boy_update :: "unit fighter \<times> unit fighter \<times> nat" where
  "after_boy_update = updateFighter sampleBox strike_keys False boy_hurt girl_near (1 / 4)"

definition after_girl_update :: "unit fighter \<times> unit fighter \<times> nat" where
  "after_girl_update =
     updateFighter sampleBox strike_keys False
       (fst (snd after_boy_update)) (fst after_boy_update) (1 / 4)"

definition struck_down :: "unit fighter" where
  "struck_down = fst (snd after_girl_update)"

definition winner :: "unit fighter" where
  "winner = fst after_girl_update"

text \<open>
  A frame of 1/64 of a second in which the boy, with 10 health left, stands idle at
  0.875 and the girl, at 2, punches; and the key table of the frame after it, in which the
  boy holds his punch key and his kick key.
\<close>

definition girl_punch_keys :: keymap where
  "girl_punch_keys = [''Slash'' \<mapsto> True]"

definition girl_close :: "unit fighter" where
  "girl_close = fighter2_init\<lparr>group := set_position_x 2 girl_init\<rparr>"

definition idle_boy_update :: "unit fighter \<times> unit fighter \<times> nat" where
  "idle_boy_update = updateFighter sampleBox girl_punch_keys False boy_hurt girl_close (1 / 64)"

definition punching_girl_update :: "unit fighter \<times> unit fighter \<times> nat" where
  "punching_girl_update =
     updateFighter sampleBox girl_punch_keys False
       (fst (snd idle_boy_update)) (fst idle_boy_update) (1 / 64)"

definition fallen :: "unit fighter" where
  "fallen = fst (snd punching_girl_update)"

definition standing :: "unit fighter" where
  "standing = fst punching_girl_update"


definition bworld_init :: bworld where
  "bworld_init =
     \<lparr>fighter1 = bfighter1_init, fighter2 = bfighter2_init, keys = no_keys, gameStarted = False,
      gameOver = False, lightningCooldown = 0, xPressedPrev = False, fireballCooldown = 0,
      uPressedPrev = False, projectiles = [], prevTime = 0, bar1_width = 200, bar2_width = 200,
      healthBarUpdates = 0, lightningShots = 0, fireballShots = 0, overlays = [],
      gPressedPrev = False, zPressedPrev = False\<rparr>"

text \<open>
  The state when the page has loaded: \<^verbatim>\<open>init\<close> has called \<^verbatim>\<open>createCubes(1)\<close> and has
  added the light to the scene. References that are in use lie below \<open>next_ref\<close>.
\<close>

definition demo_loaded :: cubes_demo where
  "demo_loaded =
     \<lparr>rotationSpeed = 0.01, isSphere = False, cubes = [], heap = Map.empty, scene = {},
      next_ref = 0\<rparr>"

definition demo_init :: cubes_demo where
  "demo_init =
     (let s = createCubes 1 demo_loaded
      in s\<lparr>scene := insert (next_ref s) (scene s), next_ref := Suc (next_ref s)\<rparr>)"

definition allocated :: "cubes_demo \<Rightarrow> bool" where
  "allocated s \<longleftrightarrow> set (cubes s) \<union> scene s \<union> dom (heap s) \<subseteq> {..<next_ref s}"

text \<open>
  What the bow may change of a character: \<open>bow_rel g g'\<close> says that \<open>g'\<close> has the parts of
  \<open>g\<close> under the same names, that the parts other than the torso and the head are as in
  \<open>g\<close>, and that every part is as in \<open>g\<close> up to its \<^verbatim>\<open>rotation.x\<close>. \<open>upright a g'\<close> says
  that torso and head, where present, have \<^verbatim>\<open>rotation.x = a\<close>.
\<close>

definition bow_rel :: "group \<Rightarrow> group \<Rightarrow> bool" where
  "bow_rel g g' \<longleftrightarrow>
     dom (objects g') = dom (objects g) \<and>
     (\<forall>p. p \<noteq> ''torso'' \<and> p \<noteq> ''head'' \<longrightarrow> objects g' p = objects g p) \<and>
     (\<forall>p ob. objects g p = Some ob \<longrightarrow>
        (\<exists>v. objects g' p = Some (ob\<lparr>rotation := (rotation ob)\<lparr>vx := v\<rparr>\<rparr>)))"

definition upright :: "real \<Rightarrow> group \<Rightarrow> bool" where
  "upright a g' \<longleftrightarrow>
     (\<forall>p ob. (p = ''torso'' \<or> p = ''head'') \<and> objects g' p = Some ob \<longrightarrow> vx (rotation ob) = a)"

definition bowed :: "real \<Rightarrow> group \<Rightarrow> group" where
  "bowed a g = set_rotation_x ''head'' a (set_rotation_x ''torso'' a g)"

definition bow_refs_of :: "group \<Rightarrow> group \<Rightarrow> bow_refs" where
  "bow_refs_of b g =
     \<lparr>torso1 = getObjectByName b ''torso'', torso2 = getObjectByName g ''torso'',
      head1 = getObjectByName b ''head'', head2 = getObjectByName g ''head''\<rparr>"

text \<open>Two characters with parts missing: a boy without a head, a girl with no parts at all.\<close>

definition headless :: group where
  "headless = boy_init\<lparr>objects := (objects boy_init)(''head'' := None)\<rparr>"

definition bare :: group where
  "bare = girl_init\<lparr>objects := Map.empty\<rparr>"

text \<open>
  The range of a health, and a state of the arena in which both healths are inside it while
  the storage of the origin holds other numbers under the two keys of the game.
\<close>

definition in_range :: "jsnum \<Rightarrow> bool" where
  "in_range h = (case h of NaN \<Rightarrow> False | Num x \<Rightarrow> 0 \<le> x \<and> x \<le> 100)"

definition arena_fighter :: sfighter where
  "arena_fighter =
     \<lparr>s_health = Num 40, s_isAttacking = False, s_attackTimer = 0, s_attackType = None,
      s_isBlocking = False, s_blockTimer = 0, s_forceActiveTimer = 0, characterType = roblox,
      isOPForm = False\<rparr>"

definition arena_tampered :: arena where
  "arena_tampered =
     \<lparr>s_fighter1 = arena_fighter, s_fighter2 = arena_fighter\<lparr>s_health := Num 100\<rparr>,
      s_gameOver = False, fighter1Health = Some (Num 500), fighter2Health = Some NaN\<rparr>"

text \<open>
  A runner to try the workflow on: the file system is the set of the directories that
  exist, every program succeeds, and \<^verbatim>\<open>npm run build\<close> leaves its output in
  \<^verbatim>\<open>fighters/dist\<close> whichever game it is called for, so that the build of the cubes
  has no output directory.
\<close>

definition toy_exec :: "cmd \<Rightarrow> string set \<Rightarrow> nat \<times> string set" where
  "toy_exec c f =
     (case c of
        Rm_rf d \<Rightarrow> (0, f - {d})
      | Mkdir_p d \<Rightarrow> (0, insert d f)
      | Npm_run_build \<Rightarrow> (0, insert ''fighters/dist'' f)
      | _ \<Rightarrow> (0, f))"

definition toy_is_dir :: "string set \<Rightarrow> string \<Rightarrow> bool" where
  "toy_is_dir f p \<longleftrightarrow> p \<in> f"

definition toy_repo :: "string set" where
  "toy_repo = {''fighters'', ''cubes''}"

definition toy_built :: "string set" where
  "toy_built = {''site/fighters'', ''fighters/dist'', ''site'', ''fighters'', ''cubes''}"

definition toy_action :: "step \<Rightarrow> string set \<Rightarrow> nat \<times> string set" where
  "toy_action stp f = (if stp = Checkout_repository then (0, toy_repo) else (0, f))"

definition toy_shell :: "string set shell" where
  "toy_shell = \<lparr>fs = {}, stdout = [], stderr = []\<rparr>"

text \<open>
  For the timers: the boy of the blocking variant after a frame in which he held his block
  key, a game of the first variant whose lightning has just been shot, and a fighter of the
  arena at the end of a punch.
\<close>

definition block_keys :: keymap where
  "block_keys = [''KeyR'' \<mapsto> True]"

definition blocker :: bfighter where
  "blocker =
     fst (updateFighter_blocking sampleBox_shield block_keys False bfighter1_init bfighter2_init
            (1 / 8))"

definition world_cooling :: "(unit, unit) world" where
  "world_cooling = world_init\<lparr>gameStarted := True, lightningCooldown := 1\<rparr>"

definition arena_puncher :: sfighter where
  "arena_puncher =
     arena_fighter\<lparr>s_isAttacking := True, s_attackTimer := 1 / 16, s_attackType := Some Punch,
       s_blockTimer := 1 / 4, s_isBlocking := True\<rparr>"

section \<open>Properties of the fighter update\<close>

lemma getObjectByName_set_position_x [simp]:
  "getObjectByName (set_position_x v g) n = getObjectByName g n"
  by (simp add: getObjectByName_def set_position_x_def)

lemma getObjectByName_set_rotation_x [simp]:
  "getObjectByName (set_rotation_x m v g) n = getObjectByName g n"
  by (simp add: getObjectByName_def set_rotation_x_def split: option.splits)

lemma faceOpponent_fields [simp]:
  "health (faceOpponent f opponent) = health f"
  "isAttacking (faceOpponent f opponent) = isAttacking f"
  "attackTimer (faceOpponent f opponent) = attackTimer f"
  "attackLimb (faceOpponent f opponent) = attackLimb f"
  "attackType (faceOpponent f opponent) = attackType f"
  "controls (faceOpponent f opponent) = controls f"
  "getObjectByName (group (faceOpponent f opponent)) n = getObjectByName (group f) n"
  by (simp_all add: faceOpponent_def Let_def getObjectByName_def)

lemma movement_fields [simp]:
  "health (movement ks dt f) = health f"
  "isAttacking (movement ks dt f) = isAttacking f"
  "attackTimer (movement ks dt f) = attackTimer f"
  "attackLimb (movement ks dt f) = attackLimb f"
  "attackType (movement ks dt f) = attackType f"
  "controls (movement ks dt f) = controls f"
  "facing (movement ks dt f) = facing f"
  "getObjectByName (group (movement ks dt f)) n = getObjectByName (group f) n"
  by (simp_all add: movement_def Let_def)

lemma startAttack_fields [simp]:
  "health (startAttack req f) = health f"
  "group (startAttack req f) = group f"
  "controls (startAttack req f) = controls f"
  "facing (startAttack req f) = facing f"
  "isAttacking (startAttack req f) = (isAttacking f \<or> req \<noteq> None)"
  by (auto simp add: startAttack_def split: option.splits)

lemma tickAttack_fields [simp]:
  "health (tickAttack dt f) = health f"
  "attackTimer (tickAttack dt f) = attackTimer f - dt"
  "attackLimb (tickAttack dt f) = attackLimb f"
  "isAttacking (tickAttack dt f) = (isAttacking f \<and> \<not> attackTimer f - dt \<le> 0)"
  "attackType (tickAttack dt f) = (if attackTimer f - dt \<le> 0 then None else attackType f)"
  "group (tickAttack dt f) = group f"
  "controls (tickAttack dt f) = controls f"
  "facing (tickAttack dt f) = facing f"
  by (simp_all add: tickAttack_def Let_def)

lemma animateLimb_fields [simp]:
  "health (animateLimb f) = health f"
  "attackTimer (animateLimb f) = attackTimer f"
  "attackLimb (animateLimb f) = attackLimb f"
  "isAttacking (animateLimb f) = isAttacking f"
  "attackType (animateLimb f) = attackType f"
  "controls (animateLimb f) = controls f"
  "facing (animateLimb f) = facing f"
  by (simp_all add: animateLimb_def Let_def split: option.splits)

lemma resetLimb_fields [simp]:
  "health (resetLimb f) = health f"
  "attackTimer (resetLimb f) = attackTimer f"
  "attackLimb (resetLimb f) = attackLimb f"
  "isAttacking (resetLimb f) = isAttacking f"
  "attackType (resetLimb f) = attackType f"
  "controls (resetLimb f) = controls f"
  "facing (resetLimb f) = facing f"
  by (simp_all add: resetLimb_def split: option.splits)

text \<open>
  C10. In the base variant, when the punch key and the kick key are both down and the
  fighter is not attacking, the attack requested after the movement block is a kick, and the
  attack that starts has type kick, the full duration and the limb found under the name
  \<^verbatim>\<open>rightLeg\<close>. At the end of the whole update the limb is still that one and the attack
  type is still kick unless the frame was as long as the attack; a fighter whose update does
  not run (game over, or no health left) is returned as it was.
\<close>

theorem kick_overrides_punch:
  assumes both: "pressed ks (punch (controls f))" "pressed ks (kick (controls f))"
    and idle: "\<not> isAttacking f"
  shows "(let f2 = movement ks dt (faceOpponent f opponent);
              f3 = startAttack (requestedAttack ks f2) f2
          in requestedAttack ks f2 = Some Kick \<and> isAttacking f3 \<and> attackType f3 = Some Kick \<and>
             attackTimer f3 = attackDuration \<and>
             attackLimb f3 = getObjectByName (group f) ''rightLeg'') \<and>
         (case updateFighter boxOf ks over f opponent dt of
            (f', opponent', n) \<Rightarrow>
              if over \<or> health f \<le> 0 then f' = f
              else attackLimb f' = getObjectByName (group f) ''rightLeg'' \<and>
                   attackType f' = (if dt < attackDuration then Some Kick else None))"
proof -
  define f2 where "f2 = movement ks dt (faceOpponent f opponent)"
  have req: "requestedAttack ks f2 = Some Kick"
    using both by (simp add: requestedAttack_def f2_def)
  have idle2: "\<not> isAttacking f2"
    using idle by (simp add: f2_def)
  define f3 where "f3 = startAttack (Some Kick) f2"
  have f3: "isAttacking f3" "attackType f3 = Some Kick" "attackTimer f3 = attackDuration"
    "attackLimb f3 = getObjectByName (group f) ''rightLeg''"
    using idle2 by (simp_all add: f3_def startAttack_def f2_def)
  have first: "(let f2 = movement ks dt (faceOpponent f opponent);
              f3 = startAttack (requestedAttack ks f2) f2
          in requestedAttack ks f2 = Some Kick \<and> isAttacking f3 \<and> attackType f3 = Some Kick \<and>
             attackTimer f3 = attackDuration \<and>
             attackLimb f3 = getObjectByName (group f) ''rightLeg'')"
    using req f3 by (simp add: Let_def f2_def [symmetric] f3_def [symmetric])
  have second: "(case updateFighter boxOf ks over f opponent dt of
            (f', opponent', n) \<Rightarrow>
              if over \<or> health f \<le> 0 then f' = f
              else attackLimb f' = getObjectByName (group f) ''rightLeg'' \<and>
                   attackType f' = (if dt < attackDuration then Some Kick else None))"
  proof (cases "over \<or> health f \<le> 0")
    case True
    then show ?thesis by (simp add: updateFighter_def)
  next
    case False
    then show ?thesis
      using req f3
      by (simp add: updateFighter_def Let_def f2_def [symmetric] f3_def [symmetric])
  qed
  from first second show ?thesis by blast
qed

theorem kick_overrides_punch_witness:
  "pressed punch_and_kick_down (punch (controls fighter1_init)) \<and>
   pressed punch_and_kick_down (kick (controls fighter1_init)) \<and>
   \<not> isAttacking fighter1_init \<and>
   attackLimb (fst (updateFighter sampleBox punch_and_kick_down False fighter1_init fighter2_init (1 / 64)))
     = Some ''rightLeg'' \<and>
   attackType (fst (updateFighter sampleBox punch_and_kick_down False fighter1_init fighter2_init (1 / 64)))
     = Some Kick"
proof -
  have a: "pressed punch_and_kick_down (punch (controls fighter1_init))"
    by (simp add: pressed_def punch_and_kick_down_def fighter1_init_def)
  have b: "pressed punch_and_kick_down (kick (controls fighter1_init))"
    by (simp add: pressed_def punch_and_kick_down_def fighter1_init_def)
  have c: "\<not> isAttacking fighter1_init"
    by (simp add: fighter1_init_def)
  have leg: "getObjectByName (group fighter1_init) ''rightLeg'' = Some ''rightLeg''"
    by (simp add: fighter1_init_def boy_init_def getObjectByName_def)
  have h: "\<not> (False \<or> health fighter1_init \<le> 0)"
    by (simp add: fighter1_init_def)
  have d: "(1 / 64 :: real) < attackDuration"
    by (simp add: attackDuration_def)
  show ?thesis
    using kick_overrides_punch [OF a b c, where dt = "1 / 64" and opponent = fighter2_init
        and boxOf = sampleBox and over = False] a b c leg h d
    by (simp add: Let_def split: prod.splits)
qed

lemma requestedAttack_cong [simp]:
  "requestedAttack ks (movement ks' dt f) = requestedAttack ks f"
  "requestedAttack ks (faceOpponent f opponent) = requestedAttack ks f"
  by (simp_all add: requestedAttack_def)

lemma updateBlocking_fields [simp]:
  "health (updateBlocking ks dt f) = health f"
  "group (updateBlocking ks dt f) = group f"
  "isAttacking (updateBlocking ks dt f) = isAttacking f"
  "attackTimer (updateBlocking ks dt f) = attackTimer f"
  "attackLimb (updateBlocking ks dt f) = attackLimb f"
  "attackType (updateBlocking ks dt f) = attackType f"
  "controls (updateBlocking ks dt f) = controls f"
  "forceMesh (updateBlocking ks dt f) = forceMesh f"
  "forceActiveTimer (updateBlocking ks dt f) = forceActiveTimer f"
  "forceCooldown (updateBlocking ks dt f) = forceCooldown f"
  "blockTimer (updateBlocking ks dt f) =
     (if pressed ks (block (controls f)) then BLOCK_GRACE
      else if blockTimer f > 0 then blockTimer f - dt else blockTimer f)"
  "isBlocking (updateBlocking ks dt f) = (blockTimer (updateBlocking ks dt f) > 0)"
  by (simp_all add: updateBlocking_def Let_def)

lemma blockingArms_fields [simp]:
  "health (blockingArms f) = health f"
  "isAttacking (blockingArms f) = isAttacking f"
  "attackTimer (blockingArms f) = attackTimer f"
  "attackLimb (blockingArms f) = attackLimb f"
  "attackType (blockingArms f) = attackType f"
  "controls (blockingArms f) = controls f"
  "isBlocking (blockingArms f) = isBlocking f"
  "blockTimer (blockingArms f) = blockTimer f"
  "forceMesh (blockingArms f) = forceMesh f"
  "forceActiveTimer (blockingArms f) = forceActiveTimer f"
  "forceCooldown (blockingArms f) = forceCooldown f"
  by (simp_all add: blockingArms_def Let_def split: option.splits)

lemma blocking_fields_kept [simp]:
  "isBlocking (faceOpponent f opponent) = isBlocking f"
  "blockTimer (faceOpponent f opponent) = blockTimer f"
  "forceMesh (faceOpponent f opponent) = forceMesh f"
  "forceActiveTimer (faceOpponent f opponent) = forceActiveTimer f"
  "forceCooldown (faceOpponent f opponent) = forceCooldown f"
  "isBlocking (movement ks dt f) = isBlocking f"
  "blockTimer (movement ks dt f) = blockTimer f"
  "forceMesh (movement ks dt f) = forceMesh f"
  "forceActiveTimer (movement ks dt f) = forceActiveTimer f"
  "forceCooldown (movement ks dt f) = forceCooldown f"
  "isBlocking (startAttack req f) = isBlocking f"
  "blockTimer (startAttack req f) = blockTimer f"
  "forceMesh (startAttack req f) = forceMesh f"
  "forceActiveTimer (startAttack req f) = forceActiveTimer f"
  "forceCooldown (startAttack req f) = forceCooldown f"
  "isBlocking (tickAttack dt f) = isBlocking f"
  "blockTimer (tickAttack dt f) = blockTimer f"
  "forceMesh (tickAttack dt f) = forceMesh f"
  "forceActiveTimer (tickAttack dt f) = forceActiveTimer f"
  "forceCooldown (tickAttack dt f) = forceCooldown f"
  "isBlocking (animateLimb f) = isBlocking f"
  "blockTimer (animateLimb f) = blockTimer f"
  "forceMesh (animateLimb f) = forceMesh f"
  "forceActiveTimer (animateLimb f) = forceActiveTimer f"
  "forceCooldown (animateLimb f) = forceCooldown f"
  "isBlocking (resetLimb f) = isBlocking f"
  "blockTimer (resetLimb f) = blockTimer f"
  "forceMesh (resetLimb f) = forceMesh f"
  "forceActiveTimer (resetLimb f) = forceActiveTimer f"
  "forceCooldown (resetLimb f) = forceCooldown f"
  by (simp_all add: faceOpponent_def movement_def startAttack_def tickAttack_def animateLimb_def
      resetLimb_def Let_def split: option.splits)

lemma requestedAttack_blocking_cong [simp]:
  "requestedAttack_blocking ks (updateBlocking ks dt (movement ks' dt' (faceOpponent f opponent)))
     = requestedAttack_blocking ks (updateBlocking ks dt f)"
  by (simp add: requestedAttack_blocking_def)

text \<open>
  C1, as the code has it. \<open>updateFighter\<close> registers a hit (calls
  \<^verbatim>\<open>updateHealthBars\<close>, once) exactly when the update runs at all, that is the game is
  not over and the fighter has health left, the fighter is attacking when the attack block is
  entered (it was attacking already or an attack was requested in this frame), and its
  bounding box, taken in the pose of this frame, overlaps the opponent's; in the variant with
  blocking and force fields the opponent must also not be blocking and have no active force
  field. A hit sets the opponent's health to \<open>max 0 (health - 10)\<close> and ends the attacking
  state; without a hit the opponent is left as it was.
\<close>

theorem hit_registered_iff:
  "(case updateFighter boxOf ks over f opponent dt of
      (f', opponent', n) \<Rightarrow>
        (n = 1 \<longleftrightarrow>
           \<not> over \<and> health f > 0 \<and>
           (isAttacking f \<or> requestedAttack ks f \<noteq> None) \<and>
           intersectsBox (boxOf (group (strikePose ks dt f opponent))) (boxOf (group opponent))) \<and>
        (n = 1 \<longrightarrow> opponent' = opponent\<lparr>health := max 0 (health opponent - 10)\<rparr> \<and>
                   \<not> isAttacking f') \<and>
        (n \<noteq> 1 \<longrightarrow> n = 0 \<and> opponent' = opponent)) \<and>
   (case updateFighter_blocking boxOfB ks over b opponentB dt of
      (b', opponentB', n) \<Rightarrow>
        (n = 1 \<longleftrightarrow>
           \<not> over \<and> health b > 0 \<and>
           (isAttacking b \<or> requestedAttack_blocking ks (updateBlocking ks dt b) \<noteq> None) \<and>
           intersectsBox
             (boxOfB (group (strikePose_blocking ks dt b opponentB))
                     (forceMesh (strikePose_blocking ks dt b opponentB)))
             (boxOfB (group opponentB) (forceMesh opponentB)) \<and>
           \<not> isBlocking opponentB \<and> forceActiveTimer opponentB \<le> 0) \<and>
        (n = 1 \<longrightarrow> opponentB' = opponentB\<lparr>health := max 0 (health opponentB - 10)\<rparr> \<and>
                   \<not> isAttacking b') \<and>
        (n \<noteq> 1 \<longrightarrow> n = 0 \<and> opponentB' = opponentB))"
proof -
  have base: "(case updateFighter boxOf ks over f opponent dt of
      (f', opponent', n) \<Rightarrow>
        (n = 1 \<longleftrightarrow>
           \<not> over \<and> health f > 0 \<and>
           (isAttacking f \<or> requestedAttack ks f \<noteq> None) \<and>
           intersectsBox (boxOf (group (strikePose ks dt f opponent))) (boxOf (group opponent))) \<and>
        (n = 1 \<longrightarrow> opponent' = opponent\<lparr>health := max 0 (health opponent - 10)\<rparr> \<and>
                   \<not> isAttacking f') \<and>
        (n \<noteq> 1 \<longrightarrow> n = 0 \<and> opponent' = opponent))"
    by (simp add: updateFighter_def strikePose_def Let_def)
  have blocking: "(case updateFighter_blocking boxOfB ks over b opponentB dt of
      (b', opponentB', n) \<Rightarrow>
        (n = 1 \<longleftrightarrow>
           \<not> over \<and> health b > 0 \<and>
           (isAttacking b \<or> requestedAttack_blocking ks (updateBlocking ks dt b) \<noteq> None) \<and>
           intersectsBox
             (boxOfB (group (strikePose_blocking ks dt b opponentB))
                     (forceMesh (strikePose_blocking ks dt b opponentB)))
             (boxOfB (group opponentB) (forceMesh opponentB)) \<and>
           \<not> isBlocking opponentB \<and> forceActiveTimer opponentB \<le> 0) \<and>
        (n = 1 \<longrightarrow> opponentB' = opponentB\<lparr>health := max 0 (health opponentB - 10)\<rparr> \<and>
                   \<not> isAttacking b') \<and>
        (n \<noteq> 1 \<longrightarrow> n = 0 \<and> opponentB' = opponentB))"
    by (simp add: updateFighter_blocking_def strikePose_blocking_def Let_def)
  from base blocking show ?thesis by blast
qed

lemma sample_group_facts:
  "objects near_girl ''rightLeg'' = Some (part 0.3 0.75)"
  "objects near_girl ''rightArm'' = Some (part 0.95 2.25)"
  "position near_girl = \<lparr>vx = 2, vy = 0, vz = 0\<rparr>"
  "position girl_init = \<lparr>vx = 3, vy = 0, vz = 0\<rparr>"
  by (simp_all add: near_girl_def set_position_x_def boy_init_def girl_init_def)

theorem hit_registered_witness:
  "(case updateFighter sampleBox punch_and_kick_down False striker fighter2_init (1 / 64) of
      (f', opponent', n) \<Rightarrow> n = 1 \<and> health opponent' = 90 \<and> \<not> isAttacking f') \<and>
   (case updateFighter_blocking sampleBox_shield punch_and_kick_down False striker_blocking
           bfighter2_init (1 / 64) of
      (b', opponentB', n) \<Rightarrow> n = 1 \<and> health opponentB' = 90 \<and> \<not> isAttacking b')"
proof -
  have pos1: "position (group (strikePose punch_and_kick_down (1 / 64) striker fighter2_init))
                = \<lparr>vx = 2, vy = 0, vz = 0\<rparr>"
    by (simp add: strikePose_def Let_def movement_def faceOpponent_def startAttack_def
        requestedAttack_def tickAttack_def animateLimb_def pressed_def punch_and_kick_down_def
        striker_def fighter1_init_def fighter2_init_def sample_group_facts getObjectByName_def
        set_rotation_x_def attackDuration_def)
  have girl1: "position (group fighter2_init) = \<lparr>vx = 3, vy = 0, vz = 0\<rparr>"
    by (simp add: fighter2_init_def sample_group_facts)
  have box1: "intersectsBox
        (sampleBox (group (strikePose punch_and_kick_down (1 / 64) striker fighter2_init)))
        (sampleBox (group fighter2_init))"
    by (simp add: pos1 girl1 sampleBox_def intersectsBox_def)
  have req1: "health striker > 0 \<and> requestedAttack punch_and_kick_down striker \<noteq> None"
    by (simp add: requestedAttack_def pressed_def punch_and_kick_down_def striker_def
        fighter1_init_def)
  have pre1: "\<not> False \<and> health striker > 0 \<and>
      (isAttacking striker \<or> requestedAttack punch_and_kick_down striker \<noteq> None) \<and>
      intersectsBox
        (sampleBox (group (strikePose punch_and_kick_down (1 / 64) striker fighter2_init)))
        (sampleBox (group fighter2_init))"
    using box1 req1 by blast
  have pos2: "position (group (strikePose_blocking punch_and_kick_down (1 / 64) striker_blocking
                  bfighter2_init)) = \<lparr>vx = 2, vy = 0, vz = 0\<rparr>"
    "forceMesh (strikePose_blocking punch_and_kick_down (1 / 64) striker_blocking bfighter2_init)
       = None"
    by (simp_all add: strikePose_blocking_def Let_def movement_def faceOpponent_def startAttack_def
        requestedAttack_blocking_def updateBlocking_def tickAttack_def animateLimb_def pressed_def
        punch_and_kick_down_def striker_blocking_def bfighter1_init_def bfighter2_init_def
        sample_group_facts getObjectByName_def set_rotation_x_def attackDuration_def)
  have girl2: "position (group bfighter2_init) = \<lparr>vx = 3, vy = 0, vz = 0\<rparr>"
    "forceMesh bfighter2_init = None"
    by (simp_all add: bfighter2_init_def sample_group_facts)
  have box2: "intersectsBox
        (sampleBox_shield
           (group (strikePose_blocking punch_and_kick_down (1 / 64) striker_blocking bfighter2_init))
           (forceMesh (strikePose_blocking punch_and_kick_down (1 / 64) striker_blocking
              bfighter2_init)))
        (sampleBox_shield (group bfighter2_init) (forceMesh bfighter2_init))"
    by (simp add: pos2 girl2 sampleBox_shield_def sampleBox_def intersectsBox_def)
  have req2: "health striker_blocking > 0 \<and>
       requestedAttack_blocking punch_and_kick_down
         (updateBlocking punch_and_kick_down (1 / 64) striker_blocking) \<noteq> None"
    by (simp add: requestedAttack_blocking_def updateBlocking_def pressed_def
        punch_and_kick_down_def striker_blocking_def bfighter1_init_def)
  have free2: "\<not> isBlocking bfighter2_init \<and> forceActiveTimer bfighter2_init \<le> 0"
    by (simp add: bfighter2_init_def)
  have pre2: "\<not> False \<and> health striker_blocking > 0 \<and>
      (isAttacking striker_blocking \<or>
       requestedAttack_blocking punch_and_kick_down
         (updateBlocking punch_and_kick_down (1 / 64) striker_blocking) \<noteq> None) \<and>
      intersectsBox
        (sampleBox_shield
           (group (strikePose_blocking punch_and_kick_down (1 / 64) striker_blocking bfighter2_init))
           (forceMesh (strikePose_blocking punch_and_kick_down (1 / 64) striker_blocking
              bfighter2_init)))
        (sampleBox_shield (group bfighter2_init) (forceMesh bfighter2_init)) \<and>
      \<not> isBlocking bfighter2_init \<and> forceActiveTimer bfighter2_init \<le> 0"
    using box2 req2 free2 by blast
  have h: "health fighter2_init = 100" "health bfighter2_init = 100"
    by (simp_all add: fighter2_init_def bfighter2_init_def)
  show ?thesis
    using hit_registered_iff [where boxOf = sampleBox and ks = punch_and_kick_down
        and over = False and f = striker and opponent = fighter2_init and dt = "1 / 64"
        and boxOfB = sampleBox_shield and b = striker_blocking and opponentB = bfighter2_init]
      pre1 pre2 h
    by (auto split: prod.splits)
qed

lemma updateHealthBars_fighters [simp]:
  "fighter1 ((updateHealthBars ^^ n) w) = fighter1 w"
  "fighter2 ((updateHealthBars ^^ n) w) = fighter2 w"
  by (induction n) (simp_all add: updateHealthBars_def)

lemma position_set_rotation [simp]:
  "position (set_rotation_x n v g) = position g"
  "position (set_rotation_z n v g) = position g"
  by (simp_all add: set_rotation_x_def set_rotation_z_def split: option.splits)

lemma position_limb [simp]:
  "position (group (animateLimb f)) = position (group f)"
  "position (group (resetLimb f)) = position (group f)"
  by (simp_all add: animateLimb_def resetLimb_def Let_def split: option.splits)

lemma startAttack_timer [simp]:
  "attackTimer (startAttack req f) =
     (if \<not> isAttacking f \<and> req \<noteq> None then attackDuration else attackTimer f)"
  by (simp add: startAttack_def split: option.splits)

lemma position_moved:
  "position (group (movement ks dt (faceOpponent f opponent))) =
     (position (group f))\<lparr>vx := vx (position (group f))
        - (if pressed ks (left (controls f)) then speed * dt else 0)
        + (if pressed ks (right (controls f)) then speed * dt else 0)\<rparr>"
  by (simp add: movement_def faceOpponent_def Let_def set_position_x_def)





text \<open>The four ways through \<open>updateFighter\<close>.\<close>

lemma updateFighter_guard:
  assumes "over \<or> health f \<le> 0"
  shows "updateFighter boxOf ks over f opponent dt = (f, opponent, 0)"
  using assms by (simp add: updateFighter_def)

lemma updateFighter_idle:
  assumes "\<not> over" and "health f > 0" and "\<not> isAttacking f" and "requestedAttack ks f = None"
  shows "updateFighter boxOf ks over f opponent dt
    = (resetLimb (movement ks dt (faceOpponent f opponent)), opponent, 0)"
  using assms by (simp add: updateFighter_def Let_def startAttack_def)

lemma updateFighter_miss:
  assumes "\<not> over" and "health f > 0" and "isAttacking f \<or> requestedAttack ks f \<noteq> None"
    and "\<not> intersectsBox (boxOf (group (strikePose ks dt f opponent))) (boxOf (group opponent))"
  shows "updateFighter boxOf ks over f opponent dt = (strikePose ks dt f opponent, opponent, 0)"
  using assms by (simp add: updateFighter_def strikePose_def Let_def)

lemma updateFighter_hit:
  assumes "\<not> over" and "health f > 0" and "isAttacking f \<or> requestedAttack ks f \<noteq> None"
    and "intersectsBox (boxOf (group (strikePose ks dt f opponent))) (boxOf (group opponent))"
  shows "updateFighter boxOf ks over f opponent dt
    = ((strikePose ks dt f opponent)\<lparr>isAttacking := False\<rparr>,
       opponent\<lparr>health := max 0 (health opponent - 10)\<rparr>, 1)"
  using assms by (simp add: updateFighter_def strikePose_def Let_def)

lemma strikePose_fields:
  "health (strikePose ks dt f opponent) = health f"
  "controls (strikePose ks dt f opponent) = controls f"
  "position (group (strikePose ks dt f opponent)) =
     (position (group f))\<lparr>vx := vx (position (group f))
        - (if pressed ks (left (controls f)) then speed * dt else 0)
        + (if pressed ks (right (controls f)) then speed * dt else 0)\<rparr>"
  "attackTimer (strikePose ks dt f opponent) =
     (if \<not> isAttacking f \<and> requestedAttack ks f \<noteq> None then attackDuration else attackTimer f) - dt"
  "isAttacking (strikePose ks dt f opponent) \<longleftrightarrow>
     (isAttacking f \<or> requestedAttack ks f \<noteq> None) \<and>
     0 < (if \<not> isAttacking f \<and> requestedAttack ks f \<noteq> None then attackDuration else attackTimer f) - dt"
  by (auto simp add: strikePose_def Let_def position_moved)

lemma boy_hurt_facts:
  "health boy_hurt = 10" "\<not> isAttacking boy_hurt" "attackType boy_hurt = None"
  "attackLimb boy_hurt = Some ''rightArm''"
  "position (group boy_hurt) = \<lparr>vx = 0.875, vy = 0, vz = 0\<rparr>"
  "left (controls boy_hurt) = ''KeyA''" "right (controls boy_hurt) = ''KeyD''"
  "punch (controls boy_hurt) = ''KeyF''" "kick (controls boy_hurt) = ''KeyG''"
  by (simp_all add: boy_hurt_def fighter1_init_def set_position_x_def boy_init_def
      getObjectByName_def)

lemma girl_facts:
  "health girl_near = 100" "\<not> isAttacking girl_near"
  "position (group girl_near) = \<lparr>vx = 2.625, vy = 0, vz = 0\<rparr>"
  "left (controls girl_near) = ''ArrowLeft''" "right (controls girl_near) = ''ArrowRight''"
  "punch (controls girl_near) = ''Slash''" "kick (controls girl_near) = ''KeyL''"
  "health girl_close = 100" "\<not> isAttacking girl_close"
  "position (group girl_close) = \<lparr>vx = 2, vy = 0, vz = 0\<rparr>"
  "left (controls girl_close) = ''ArrowLeft''" "right (controls girl_close) = ''ArrowRight''"
  "punch (controls girl_close) = ''Slash''" "kick (controls girl_close) = ''KeyL''"
  by (simp_all add: girl_near_def girl_close_def fighter2_init_def set_position_x_def
      girl_init_def)

lemma strike_pressed:
  "\<not> pressed strike_keys ''KeyA''" "\<not> pressed strike_keys ''KeyD''"
  "pressed strike_keys ''ArrowLeft''" "\<not> pressed strike_keys ''ArrowRight''"
  "\<not> pressed girl_punch_keys ''KeyA''" "\<not> pressed girl_punch_keys ''KeyD''"
  "\<not> pressed girl_punch_keys ''ArrowLeft''" "\<not> pressed girl_punch_keys ''ArrowRight''"
  by (simp_all add: pressed_def strike_keys_def girl_punch_keys_def)

lemma strike_requests:
  "requestedAttack strike_keys boy_hurt = Some Punch"
  "requestedAttack strike_keys girl_near = Some Punch"
  "requestedAttack girl_punch_keys boy_hurt = None"
  "requestedAttack girl_punch_keys girl_close = Some Punch"
  by (simp_all add: requestedAttack_def pressed_def strike_keys_def girl_punch_keys_def
      boy_hurt_facts girl_facts)

lemma after_boy_update_eq:
  "after_boy_update = (strikePose strike_keys (1 / 4) boy_hurt girl_near, girl_near, 0)"
  unfolding after_boy_update_def
proof (rule updateFighter_miss)
  show "\<not> intersectsBox (sampleBox (group (strikePose strike_keys (1 / 4) boy_hurt girl_near)))
      (sampleBox (group girl_near))"
    by (simp add: strikePose_fields boy_hurt_facts girl_facts sampleBox_def intersectsBox_def
        strike_pressed)
qed (simp_all add: boy_hurt_facts strike_requests)

lemma boy_after_facts:
  "health (strikePose strike_keys (1 / 4) boy_hurt girl_near) = 10"
  "isAttacking (strikePose strike_keys (1 / 4) boy_hurt girl_near)"
  "attackTimer (strikePose strike_keys (1 / 4) boy_hurt girl_near) = 1 / 20"
  "position (group (strikePose strike_keys (1 / 4) boy_hurt girl_near))
      = \<lparr>vx = 0.875, vy = 0, vz = 0\<rparr>"
  by (simp_all add: strikePose_fields boy_hurt_facts strike_requests attackDuration_def
      strike_pressed)

lemma girl_after_facts:
  "position (group (strikePose strike_keys (1 / 4) girl_near b)) = \<lparr>vx = 2, vy = 0, vz = 0\<rparr>"
  by (simp add: strikePose_fields girl_facts strike_pressed speed_def)

lemma after_girl_update_eq:
  "after_girl_update =
     ((strikePose strike_keys (1 / 4) girl_near
         (strikePose strike_keys (1 / 4) boy_hurt girl_near))\<lparr>isAttacking := False\<rparr>,
      (strikePose strike_keys (1 / 4) boy_hurt girl_near)\<lparr>health := 0\<rparr>, 1)"
proof -
  let ?b = "strikePose strike_keys (1 / 4) boy_hurt girl_near"
  have "updateFighter sampleBox strike_keys False girl_near ?b (1 / 4)
      = ((strikePose strike_keys (1 / 4) girl_near ?b)\<lparr>isAttacking := False\<rparr>,
         ?b\<lparr>health := max 0 (health ?b - 10)\<rparr>, 1)"
  proof (rule updateFighter_hit)
    show "intersectsBox (sampleBox (group (strikePose strike_keys (1 / 4) girl_near ?b)))
        (sampleBox (group ?b))"
      by (simp add: girl_after_facts boy_after_facts sampleBox_def intersectsBox_def)
  qed (simp_all add: girl_facts strike_requests)
  then show ?thesis
    by (simp add: after_girl_update_def after_boy_update_eq boy_after_facts)
qed

text \<open>
  The guard at the head of \<^verbatim>\<open>updateFighter\<close> is what the claim leaves out. In the frame
  of \<open>after_boy_update\<close> and \<open>after_girl_update\<close> the boy starts a punch that does not
  reach the girl, 1.75 away, and the girl steps in to 1.125 away and strikes him down. From then
  on he keeps \<^verbatim>\<open>isAttacking\<close> and the two boxes overlap, but his update returns at once
  and registers nothing.
\<close>

theorem hit_registered_counterexample:
  "isAttacking struck_down \<and> health struck_down = 0 \<and>
   position (group struck_down) = \<lparr>vx = 0.875, vy = 0, vz = 0\<rparr> \<and>
   position (group winner) = \<lparr>vx = 2, vy = 0, vz = 0\<rparr> \<and>
   intersectsBox (sampleBox (group struck_down)) (sampleBox (group winner)) \<and>
   updateFighter sampleBox strike_keys False struck_down winner (1 / 4)
     = (struck_down, winner, 0)"
proof -
  let ?b = "strikePose strike_keys (1 / 4) boy_hurt girl_near"
  have s: "struck_down = ?b\<lparr>health := 0\<rparr>"
    by (simp add: struck_down_def after_girl_update_eq)
  have w: "winner = (strikePose strike_keys (1 / 4) girl_near ?b)\<lparr>isAttacking := False\<rparr>"
    by (simp add: winner_def after_girl_update_eq)
  have a: "isAttacking struck_down" "health struck_down = 0"
    "position (group struck_down) = \<lparr>vx = 0.875, vy = 0, vz = 0\<rparr>"
    by (simp_all add: s boy_after_facts)
  have pos: "position (group winner) = \<lparr>vx = 2, vy = 0, vz = 0\<rparr>"
    by (simp add: w girl_after_facts)
  have b: "intersectsBox (sampleBox (group struck_down)) (sampleBox (group winner))"
    by (simp add: pos a sampleBox_def intersectsBox_def)
  have c: "updateFighter sampleBox strike_keys False struck_down winner (1 / 4)
     = (struck_down, winner, 0)"
    by (rule updateFighter_guard) (simp add: a)
  from a pos b c show ?thesis by blast
qed

lemma idle_boy_update_eq:
  "idle_boy_update =
     (resetLimb (movement girl_punch_keys (1 / 64) (faceOpponent boy_hurt girl_close)),
      girl_close, 0)"
  unfolding idle_boy_update_def
  by (rule updateFighter_idle) (simp_all add: boy_hurt_facts strike_requests)

lemma punching_girl_update_eq:
  "fallen = (resetLimb (movement girl_punch_keys (1 / 64) (faceOpponent boy_hurt girl_close)))
      \<lparr>health := 0\<rparr>"
proof -
  let ?b = "resetLimb (movement girl_punch_keys (1 / 64) (faceOpponent boy_hurt girl_close))"
  have "updateFighter sampleBox girl_punch_keys False girl_close ?b (1 / 64)
      = ((strikePose girl_punch_keys (1 / 64) girl_close ?b)\<lparr>isAttacking := False\<rparr>,
         ?b\<lparr>health := max 0 (health ?b - 10)\<rparr>, 1)"
  proof (rule updateFighter_hit)
    show "intersectsBox (sampleBox (group (strikePose girl_punch_keys (1 / 64) girl_close ?b)))
        (sampleBox (group ?b))"
      by (simp add: strikePose_fields girl_facts boy_hurt_facts position_moved sampleBox_def
          intersectsBox_def strike_pressed)
  qed (simp_all add: girl_facts strike_requests)
  then show ?thesis
    by (simp add: fallen_def punching_girl_update_def idle_boy_update_eq boy_hurt_facts)
qed

text \<open>
  The same guard is what the claim about the kick leaves out. The girl's punch takes the
  last 10 health of the boy while he stands idle. In the next frame he holds his punch key
  and his kick key and is not attacking, but his update returns at once: no attack starts,
  the attack type stays empty and the limb stays the right arm.
\<close>

theorem kick_overrides_punch_counterexample:
  "pressed punch_and_kick_down (punch (controls fallen)) \<and>
   pressed punch_and_kick_down (kick (controls fallen)) \<and>
   \<not> isAttacking fallen \<and> health fallen = 0 \<and> attackType fallen = None \<and>
   attackLimb fallen = Some ''rightArm'' \<and>
   getObjectByName (group fallen) ''rightLeg'' = Some ''rightLeg'' \<and>
   updateFighter sampleBox punch_and_kick_down False fallen standing (1 / 64)
     = (fallen, standing, 0)"
proof -
  let ?b = "resetLimb (movement girl_punch_keys (1 / 64) (faceOpponent boy_hurt girl_close))"
  have a: "\<not> isAttacking fallen" "health fallen = 0" "attackType fallen = None"
    "attackLimb fallen = Some ''rightArm''" "controls fallen = controls boy_hurt"
    by (simp_all add: punching_girl_update_eq boy_hurt_facts)
  have k: "pressed punch_and_kick_down (punch (controls fallen))"
    "pressed punch_and_kick_down (kick (controls fallen))"
    by (simp_all add: a boy_hurt_facts pressed_def punch_and_kick_down_def)
  have leg: "getObjectByName (group fallen) ''rightLeg'' = Some ''rightLeg''"
    by (simp add: punching_girl_update_eq resetLimb_def movement_def faceOpponent_def Let_def
        pressed_def girl_punch_keys_def boy_hurt_def fighter1_init_def boy_init_def
        getObjectByName_def set_rotation_x_def set_position_x_def)
  have c: "updateFighter sampleBox punch_and_kick_down False fallen standing (1 / 64)
     = (fallen, standing, 0)"
    by (rule updateFighter_guard) (simp add: a)
  from a k leg c show ?thesis by blast
qed

section \<open>Health in the arena\<close>

lemma validateHealth_Num:
  "validateHealth (Num h) = Num (max 0 (min 100 h))"
  "validateHealth_scene (Num h) = Num (max 0 (min 100 h))"
  "in_range (validateHealth (Num h))" "in_range (validateHealth_scene (Num h))"
  by (simp_all add: validateHealth_def validateHealth_scene_def SECURITY_CONFIG_def
      scene_MIN_HEALTH_def scene_MAX_HEALTH_def js_max_def js_min_def in_range_def)

lemma validateHealth_in_range:
  "in_range h \<Longrightarrow> validateHealth_scene h = h"
  by (cases h) (simp_all add: validateHealth_Num in_range_def)

lemma damage_in_range:
  assumes "in_range h" and "0 \<le> d"
  shows "in_range (js_max (Num 0) (js_minus h (Num d)))"
    and "in_range (js_max (Num 20) (js_minus h (Num d)))"
  using assms by (cases h; simp add: in_range_def js_max_def js_minus_def)+

text \<open>
  As long as the \<^verbatim>\<open>try\<close> block of \<^verbatim>\<open>updateHealthBars\<close> completes, every place that
  takes health keeps a health in its range.
\<close>

lemma health_clamped_when_stored:
  assumes "in_range (s_health (s_fighter1 a))" and "in_range (s_health (s_fighter2 a))"
  shows "in_range (s_health (s_fighter1 (updateHealthBars_scene Completes a)))"
    and "in_range (s_health (s_fighter2 (updateHealthBars_scene Completes a)))"
    and "in_range (s_health (s_fighter1 (projectileHit Completes a)))"
    and "in_range (s_health (s_fighter2 (projectileHit Completes a)))"
    and "in_range (s_health (s_fighter1 (robloxSpecialDamage Completes defender a)))"
    and "in_range (s_health (s_fighter2 (robloxSpecialDamage Completes defender a)))"
    and "in_range (s_health (s_fighter1 (robotRingDamage Completes ringBox oppBox defender a)))"
    and "in_range (s_health (s_fighter2 (robotRingDamage Completes ringBox oppBox defender a)))"
    and "in_range (s_health (punishViolation (s_fighter1 a)))"
    and "in_range (s_health (bunnyHitDamage (s_fighter1 a)))"
    and "in_range (s_health (healthValidation over (s_fighter1 a)))"
proof -
  note d = damage_in_range [OF assms(1)] damage_in_range [OF assms(2)]
  note v = validateHealth_in_range
  show "in_range (s_health (s_fighter1 (updateHealthBars_scene Completes a)))"
    "in_range (s_health (s_fighter2 (updateHealthBars_scene Completes a)))"
    using assms by (simp_all add: updateHealthBars_scene_def Let_def v)
  show "in_range (s_health (s_fighter1 (projectileHit Completes a)))"
    "in_range (s_health (s_fighter2 (projectileHit Completes a)))"
    using assms d
    by (simp_all add: projectileHit_def updateHealthBars_scene_def endGame_scene_def Let_def v)
  show "in_range (s_health (s_fighter1 (robloxSpecialDamage Completes defender a)))"
    "in_range (s_health (s_fighter2 (robloxSpecialDamage Completes defender a)))"
    using assms d
    by (cases defender;
        simp add: robloxSpecialDamage_def updateHealthBars_scene_def endGame_scene_def Let_def v
          fighter_of_def with_fighter_def)+
  show "in_range (s_health (s_fighter1 (robotRingDamage Completes ringBox oppBox defender a)))"
    "in_range (s_health (s_fighter2 (robotRingDamage Completes ringBox oppBox defender a)))"
    using assms d
    by (cases defender;
        simp add: robotRingDamage_def updateHealthBars_scene_def endGame_scene_def Let_def v
          fighter_of_def with_fighter_def)+
  show "in_range (s_health (punishViolation (s_fighter1 a)))"
    using d by (simp add: punishViolation_def)
  show "in_range (s_health (bunnyHitDamage (s_fighter1 a)))"
    using assms d by (simp add: bunnyHitDamage_def)
  show "in_range (s_health (healthValidation over (s_fighter1 a)))"
    using assms by (simp add: healthValidation_def v)
qed

text \<open>
  C3. The code does not keep what the claim says. \<^verbatim>\<open>validateHealth\<close>, in both files,
  returns \<^verbatim>\<open>NaN\<close> for \<^verbatim>\<open>NaN\<close>. And \<^verbatim>\<open>updateHealthBars\<close>, which validates the
  healths in its \<^verbatim>\<open>try\<close> block, assigns them in its \<^verbatim>\<open>catch\<close> block from
  \<^verbatim>\<open>localStorage\<close> without validating: when a projectile meets a boy with health 40
  and the call of \<^verbatim>\<open>updateHealthBars\<close> that follows throws while the storage holds 500
  and a text that is no number, the boy is left with health 500 and the girl with
  \<^verbatim>\<open>NaN\<close>, both of which were in the range before; the validation at the head of the
  girl's next update leaves the \<^verbatim>\<open>NaN\<close> in place.
\<close>

theorem health_not_clamped:
  "validateHealth NaN = NaN \<and> validateHealth_scene NaN = NaN \<and>
   in_range (s_health (s_fighter1 arena_tampered)) \<and>
   in_range (s_health (s_fighter2 arena_tampered)) \<and>
   s_health (s_fighter1 (projectileHit Throws arena_tampered)) = Num 500 \<and>
   s_health (s_fighter2 (projectileHit Throws arena_tampered)) = NaN \<and>
   \<not> in_range (Num 500) \<and> \<not> in_range NaN \<and>
   s_health (healthValidation False (s_fighter2 (projectileHit Throws arena_tampered))) = NaN"
  by (simp add: validateHealth_def validateHealth_scene_def js_max_def js_min_def js_minus_def
      js_is_0_def js_le_0_def in_range_def arena_tampered_def arena_fighter_def projectileHit_def
      updateHealthBars_scene_def recover_def endGame_scene_def healthValidation_def Let_def
      scene_MIN_HEALTH_def scene_MAX_HEALTH_def)

section \<open>The cubes\<close>

lemma forEach_cube_id: "forEach_cube f s = s" if "cubes s = []"
  using that by (simp add: forEach_cube_def)

text \<open>
  C6. In the listener for \<^verbatim>\<open>keydown\<close> of the cubes, a key that is none of the handled
  ones leaves the whole state as it was.
\<close>

theorem keydown_unhandled:
  assumes "key \<noteq> ''ArrowUp''" and "key \<noteq> ''ArrowDown''" and "key \<noteq> ''ArrowLeft''"
    and "key \<noteq> ''ArrowRight''" and "key \<noteq> ''q''" and "key \<noteq> ''Q''" and "key \<noteq> ''w''"
    and "key \<noteq> ''W''" and "key \<noteq> ''1''" and "key \<noteq> ''2''" and "key \<noteq> ''3''"
    and "key \<noteq> ''4''" and "key \<noteq> ''5''" and "key \<noteq> ''6''" and "key \<noteq> ''7''"
    and "key \<noteq> ''8''" and "key \<noteq> ''9''"
  shows "keydown key s = s"
  using assms by (simp add: keydown_def)

lemma createCube_fields:
  "cubes (createCube count i t) = cubes t @ [next_ref t]"
  "next_ref (createCube count i t) = Suc (next_ref t)"
  "scene (createCube count i t) = insert (next_ref t) (scene t)"
  "rotationSpeed (createCube count i t) = rotationSpeed t"
  "isSphere (createCube count i t) = isSphere t"
  "heap (createCube count i t) = (heap t)(next_ref t \<mapsto> newCube count i t)"
  by (simp_all add: createCube_def Let_def)

lemma newCube_cong:
  "isSphere t = isSphere s \<Longrightarrow> newCube count i t = newCube count i s"
  by (simp add: newCube_def currentGeometry_def)

lemma fold_createCube:
  "cubes (fold (createCube count) [0..<k] s) = cubes s @ [next_ref s..<next_ref s + k] \<and>
   next_ref (fold (createCube count) [0..<k] s) = next_ref s + k \<and>
   scene (fold (createCube count) [0..<k] s) = scene s \<union> {next_ref s..<next_ref s + k} \<and>
   rotationSpeed (fold (createCube count) [0..<k] s) = rotationSpeed s \<and>
   isSphere (fold (createCube count) [0..<k] s) = isSphere s \<and>
   (\<forall>r. heap (fold (createCube count) [0..<k] s) r =
      (if next_ref s \<le> r \<and> r < next_ref s + k then Some (newCube count (r - next_ref s) s)
       else heap s r))"
proof (induction k)
  case 0
  show ?case by auto
next
  case (Suc k)
  define t where "t = fold (createCube count) [0..<k] s"
  have step: "fold (createCube count) [0..<Suc k] s = createCube count k t"
    by (simp add: t_def)
  from Suc have ih: "cubes t = cubes s @ [next_ref s..<next_ref s + k]"
    "next_ref t = next_ref s + k" "scene t = scene s \<union> {next_ref s..<next_ref s + k}"
    "rotationSpeed t = rotationSpeed s" "isSphere t = isSphere s"
    "\<And>r. heap t r = (if next_ref s \<le> r \<and> r < next_ref s + k
        then Some (newCube count (r - next_ref s) s) else heap s r)"
    by (simp_all add: t_def)
  have same: "newCube count k t = newCube count k s"
    by (rule newCube_cong) (rule ih(5))
  show ?case
    unfolding step createCube_fields same
    by (auto simp add: ih atLeastLessThanSuc)
qed

lemma grid_index:
  assumes "0 < count"
  shows "0 < nat \<lceil>sqrt (real count)\<rceil>"
    and "\<lfloor>real i / real_of_int \<lceil>sqrt (real count)\<rceil>\<rfloor> = int (i div nat \<lceil>sqrt (real count)\<rceil>)"
    and "int i mod \<lceil>sqrt (real count)\<rceil> = int (i mod nat \<lceil>sqrt (real count)\<rceil>)"
    and "real_of_int \<lceil>sqrt (real count)\<rceil> = real (nat \<lceil>sqrt (real count)\<rceil>)"
proof -
  define g where "g = nat \<lceil>sqrt (real count)\<rceil>"
  from assms have "0 < sqrt (real count)" by simp
  then have pos: "0 < \<lceil>sqrt (real count)\<rceil>" by linarith
  then have "0 \<le> \<lceil>sqrt (real count)\<rceil>" by (rule less_imp_le)
  then have ge: "\<lceil>sqrt (real count)\<rceil> = int g"
    unfolding g_def by (rule nat_0_le [symmetric])
  from pos show "0 < nat \<lceil>sqrt (real count)\<rceil>"
    unfolding ge by simp
  show "\<lfloor>real i / real_of_int \<lceil>sqrt (real count)\<rceil>\<rfloor> = int (i div nat \<lceil>sqrt (real count)\<rceil>)"
    unfolding ge by (simp add: floor_divide_of_nat_eq)
  show "int i mod \<lceil>sqrt (real count)\<rceil> = int (i mod nat \<lceil>sqrt (real count)\<rceil>)"
    unfolding ge by (simp add: zmod_int)
  show "real_of_int \<lceil>sqrt (real count)\<rceil> = real (nat \<lceil>sqrt (real count)\<rceil>)"
    unfolding ge by simp
qed

lemma newCube_position:
  assumes "0 < count"
  shows "position (newCube count i s) =
    \<lparr>vx = (real (i mod nat \<lceil>sqrt (real count)\<rceil>) - (real (nat \<lceil>sqrt (real count)\<rceil>) - 1) / 2) * 1.5,
     vy = (real (i div nat \<lceil>sqrt (real count)\<rceil>) - (real (nat \<lceil>sqrt (real count)\<rceil>) - 1) / 2) * 1.5,
     vz = 0\<rparr>"
proof -
  have "position (newCube count i s) =
    \<lparr>vx = (real_of_int (int i mod \<lceil>sqrt (real count)\<rceil>)
             - (real_of_int \<lceil>sqrt (real count)\<rceil> - 1) / 2) * 1.5,
     vy = (real_of_int \<lfloor>real i / real_of_int \<lceil>sqrt (real count)\<rceil>\<rfloor>
             - (real_of_int \<lceil>sqrt (real count)\<rceil> - 1) / 2) * 1.5,
     vz = 0\<rparr>"
    by (simp add: newCube_def Let_def)
  also have "\<dots> =
    \<lparr>vx = (real (i mod nat \<lceil>sqrt (real count)\<rceil>) - (real (nat \<lceil>sqrt (real count)\<rceil>) - 1) / 2) * 1.5,
     vy = (real (i div nat \<lceil>sqrt (real count)\<rceil>) - (real (nat \<lceil>sqrt (real count)\<rceil>) - 1) / 2) * 1.5,
     vz = 0\<rparr>"
    unfolding grid_index(2,3) [OF assms]
    unfolding grid_index(4) [OF assms]
    by (simp del: of_nat_nat)
  finally show ?thesis .
qed

lemma createCubes_fields:
  "cubes (createCubes count s) = [next_ref s..<next_ref s + count]"
  "next_ref (createCubes count s) = next_ref s + count"
  "scene (createCubes count s) = (scene s - set (cubes s)) \<union> {next_ref s..<next_ref s + count}"
  "rotationSpeed (createCubes count s) = rotationSpeed s"
  "isSphere (createCubes count s) = isSphere s"
  "heap (createCubes count s) r =
      (if next_ref s \<le> r \<and> r < next_ref s + count then Some (newCube count (r - next_ref s) s)
       else heap s r)"
proof -
  define s0 where "s0 = s\<lparr>scene := scene s - set (cubes s), cubes := []\<rparr>"
  have same: "newCube count i s0 = newCube count i s" for i
    by (simp add: newCube_def currentGeometry_def s0_def)
  note f = fold_createCube [of count count s0]
  have c: "createCubes count s = fold (createCube count) [0..<count] s0"
    by (simp add: createCubes_def s0_def)
  show "cubes (createCubes count s) = [next_ref s..<next_ref s + count]"
    unfolding c using f by (simp add: s0_def)
  show "next_ref (createCubes count s) = next_ref s + count"
    unfolding c using f by (simp add: s0_def)
  show "scene (createCubes count s) = (scene s - set (cubes s)) \<union> {next_ref s..<next_ref s + count}"
    unfolding c using f by (simp add: s0_def)
  show "rotationSpeed (createCubes count s) = rotationSpeed s"
    unfolding c using f by (simp add: s0_def)
  show "isSphere (createCubes count s) = isSphere s"
    unfolding c using f by (simp add: s0_def)
  show "heap (createCubes count s) r =
      (if next_ref s \<le> r \<and> r < next_ref s + count then Some (newCube count (r - next_ref s) s)
       else heap s r)"
    unfolding c using f same by (simp add: s0_def)
qed

lemma digit_key:
  assumes "1 \<le> n" and "n \<le> 9"
  shows "keydown [char_of (48 + n)] s = createCubes n s"
proof -
  from assms have "n \<in> {9, 8, 7} \<or> n \<in> {6, 5, 4} \<or> n \<in> {3, 2, 1}"
    by (simp add: insert_iff) arith
  then have "(n = 9 \<or> n = 8 \<or> n = 7) \<or> (n = 6 \<or> n = 5 \<or> n = 4) \<or> (n = 3 \<or> n = 2 \<or> n = 1)"
    by simp
  then show ?thesis
    by (elim disjE) (simp_all add: keydown_def parseInt10_def char_of_def bit_0)
qed


lemma demo_init_fields:
  "cubes demo_init = [0]" "scene demo_init = {0, 1}" "next_ref demo_init = 2"
  "dom (heap demo_init) = {0}" "isSphere demo_init = False" "rotationSpeed demo_init = 0.01"
  by (auto simp add: demo_init_def Let_def createCubes_fields demo_loaded_def numeral_2_eq_2
      split: if_splits)

lemma allocated_demo_init: "allocated demo_init"
  by (simp add: allocated_def demo_init_fields)

lemma dom_forEach_fold:
  "dom (fold (\<lambda>r h. case h r of None \<Rightarrow> h | Some c \<Rightarrow> h(r \<mapsto> f c)) rs h) = dom h"
  by (induction rs arbitrary: h) (auto split: option.splits)

lemma forEach_cube_fields:
  "cubes (forEach_cube f s) = cubes s" "scene (forEach_cube f s) = scene s"
  "next_ref (forEach_cube f s) = next_ref s" "dom (heap (forEach_cube f s)) = dom (heap s)"
  "rotationSpeed (forEach_cube f s) = rotationSpeed s" "isSphere (forEach_cube f s) = isSphere s"
  by (simp_all add: forEach_cube_def dom_forEach_fold)

lemma allocated_forEach_cube: "allocated (forEach_cube f s) \<longleftrightarrow> allocated s"
  by (simp add: allocated_def forEach_cube_fields)

lemma allocated_createCubes:
  assumes "allocated s"
  shows "allocated (createCubes count s)"
proof -
  from assms have below: "r < next_ref s" if "r \<in> scene s \<or> heap s r \<noteq> None" for r
    using that by (auto simp add: allocated_def)
  have "r < next_ref s + count" if "r \<in> dom (heap (createCubes count s))" for r
    using that below [of r] by (auto simp add: createCubes_fields split: if_splits)
  moreover have "r < next_ref s + count" if "r \<in> scene (createCubes count s)" for r
    using that below [of r] by (auto simp add: createCubes_fields)
  ultimately show ?thesis
    by (auto simp add: allocated_def createCubes_fields)
qed

lemma allocated_keydown:
  assumes "allocated s"
  shows "allocated (keydown key s)"
proof -
  have a: "allocated (s\<lparr>rotationSpeed := x\<rparr>)" "allocated (s\<lparr>rotationSpeed := x, isSphere := b\<rparr>)"
    for x b
    using assms by (simp_all add: allocated_def)
  show ?thesis
    unfolding keydown_def Let_def
    by (simp add: allocated_forEach_cube allocated_createCubes assms a)
qed

theorem keydown_unhandled_witness: "keydown ''x'' demo_init = demo_init"
  using keydown_unhandled [of "''x''" demo_init] by simp

text \<open>
  C9. For \<open>1 \<le> n \<le> 9\<close> the key of the digit \<open>n\<close> calls \<^verbatim>\<open>createCubes(n)\<close>. After it the
  list of the cubes holds \<open>n\<close> references, all of them new; the cubes that were in the list
  before are no longer in the scene and the new ones are; and the cube at index \<open>i\<close> sits in
  column \<open>i mod g\<close> and row \<open>i div g\<close> of a grid of width \<open>g = \<lceil>sqrt n\<rceil>\<close> with spacing 1.5,
  centred at the origin.
\<close>

theorem digit_key_createCubes:
  assumes "1 \<le> n" and "n \<le> 9" and "allocated s"
  shows "keydown [char_of (48 + n)] s = createCubes n s \<and>
    length (cubes (createCubes n s)) = n \<and>
    distinct (cubes (createCubes n s)) \<and>
    set (cubes (createCubes n s)) \<inter> (set (cubes s) \<union> scene s \<union> dom (heap s)) = {} \<and>
    set (cubes s) \<inter> scene (createCubes n s) = {} \<and>
    scene (createCubes n s) = (scene s - set (cubes s)) \<union> set (cubes (createCubes n s)) \<and>
    (\<forall>i<n. \<exists>c. heap (createCubes n s) (cubes (createCubes n s) ! i) = Some c \<and>
       position c =
         \<lparr>vx = (real (i mod nat \<lceil>sqrt (real n)\<rceil>) - (real (nat \<lceil>sqrt (real n)\<rceil>) - 1) / 2) * 1.5,
          vy = (real (i div nat \<lceil>sqrt (real n)\<rceil>) - (real (nat \<lceil>sqrt (real n)\<rceil>) - 1) / 2) * 1.5,
          vz = 0\<rparr>)"
proof -
  from assms(3) have below: "\<And>r. r \<in> set (cubes s) \<union> scene s \<union> dom (heap s) \<Longrightarrow> r < next_ref s"
    by (auto simp add: allocated_def)
  have key: "keydown [char_of (48 + n)] s = createCubes n s"
    using assms(1,2) by (rule digit_key)
  have len: "length (cubes (createCubes n s)) = n" "distinct (cubes (createCubes n s))"
    by (simp_all add: createCubes_fields)
  have new: "set (cubes (createCubes n s)) \<inter> (set (cubes s) \<union> scene s \<union> dom (heap s)) = {}"
    using below by (fastforce simp add: createCubes_fields)
  have old: "set (cubes s) \<inter> scene (createCubes n s) = {}"
    using below by (fastforce simp add: createCubes_fields)
  have sc: "scene (createCubes n s) = (scene s - set (cubes s)) \<union> set (cubes (createCubes n s))"
    by (simp add: createCubes_fields)
  have pos: "\<exists>c. heap (createCubes n s) (cubes (createCubes n s) ! i) = Some c \<and>
       position c =
         \<lparr>vx = (real (i mod nat \<lceil>sqrt (real n)\<rceil>) - (real (nat \<lceil>sqrt (real n)\<rceil>) - 1) / 2) * 1.5,
          vy = (real (i div nat \<lceil>sqrt (real n)\<rceil>) - (real (nat \<lceil>sqrt (real n)\<rceil>) - 1) / 2) * 1.5,
          vz = 0\<rparr>" if "i < n" for i
  proof -
    from assms(1) have n: "0 < n" by simp
    from that have "heap (createCubes n s) (cubes (createCubes n s) ! i) = Some (newCube n i s)"
      by (simp add: createCubes_fields)
    with newCube_position [OF n, of i s] show ?thesis by blast
  qed
  from key len new old sc pos show ?thesis by blast
qed

lemma grid_of_four: "nat \<lceil>sqrt (real 4)\<rceil> = 2"
  by simp

theorem digit_key_createCubes_witness:
  "keydown ''4'' demo_init = createCubes 4 demo_init \<and>
   cubes demo_init = [0] \<and> scene demo_init = {0, 1} \<and>
   cubes (createCubes 4 demo_init) = [2, 3, 4, 5] \<and>
   scene (createCubes 4 demo_init) = {1, 2, 3, 4, 5} \<and>
   map (\<lambda>r. map_option position (heap (createCubes 4 demo_init) r)) [2, 3, 4, 5] =
     [Some \<lparr>vx = - 0.75, vy = - 0.75, vz = 0\<rparr>, Some \<lparr>vx = 0.75, vy = - 0.75, vz = 0\<rparr>,
      Some \<lparr>vx = - 0.75, vy = 0.75, vz = 0\<rparr>, Some \<lparr>vx = 0.75, vy = 0.75, vz = 0\<rparr>]"
proof -
  note t = digit_key_createCubes [of 4 demo_init, OF _ _ allocated_demo_init]
  have k: "[char_of (48 + (4::nat))] = ''4''" by (simp add: char_of_def bit_0)
  have c: "cubes (createCubes 4 demo_init) = [2, 3, 4, 5]"
    by (simp add: createCubes_fields demo_init_fields upt_rec)
  have "\<exists>c. heap (createCubes 4 demo_init) (cubes (createCubes 4 demo_init) ! i) = Some c \<and>
       position c =
         \<lparr>vx = (real (i mod nat \<lceil>sqrt (real 4)\<rceil>) - (real (nat \<lceil>sqrt (real 4)\<rceil>) - 1) / 2) * 1.5,
          vy = (real (i div nat \<lceil>sqrt (real 4)\<rceil>) - (real (nat \<lceil>sqrt (real 4)\<rceil>) - 1) / 2) * 1.5,
          vz = 0\<rparr>" if "i < 4" for i
    using t that by simp
  from this [of 0] this [of 1] this [of 2] this [of 3]
  have p: "map (\<lambda>r. map_option position (heap (createCubes 4 demo_init) r)) [2, 3, 4, 5] =
     [Some \<lparr>vx = - 0.75, vy = - 0.75, vz = 0\<rparr>, Some \<lparr>vx = 0.75, vy = - 0.75, vz = 0\<rparr>,
      Some \<lparr>vx = - 0.75, vy = 0.75, vz = 0\<rparr>, Some \<lparr>vx = 0.75, vy = 0.75, vz = 0\<rparr>]"
    unfolding c grid_of_four by auto
  from t have "keydown ''4'' demo_init = createCubes 4 demo_init"
    and "scene (createCubes 4 demo_init)
      = (scene demo_init - set (cubes demo_init)) \<union> set (cubes (createCubes 4 demo_init))"
    unfolding k by simp_all
  with c p show ?thesis
    by (auto simp add: demo_init_fields)
qed

section \<open>The opening bow with parts missing\<close>

lemma write_through_nothing: "write_rotation_x None v g = Inl TypeError"
  by (simp add: write_rotation_x_def)

lemma dom_set_rotation_x [simp]: "dom (objects (set_rotation_x p a g)) = dom (objects g)"
  by (auto simp add: set_rotation_x_def split: option.splits)

lemma guarded_is_set:
  assumes "dom (objects g') = dom (objects g)"
  shows "guarded_rotation_x (getObjectByName g p) a g' = Inr (set_rotation_x p a g')"
proof (cases "objects g p")
  case None
  with assms have "objects g' p = None" by (metis domIff)
  with None show ?thesis
    by (simp add: guarded_rotation_x_def getObjectByName_def set_rotation_x_def)
next
  case (Some ob)
  then show ?thesis
    by (simp add: guarded_rotation_x_def getObjectByName_def write_rotation_x_def)
qed

lemma pose_bowed:
  assumes "dom (objects (boy s)) = dom (objects b)" and "dom (objects (girl s)) = dom (objects g)"
  shows "pose (bow_refs_of b g) a s = Inr (s\<lparr>boy := bowed a (boy s), girl := bowed a (girl s)\<rparr>)"
proof -
  have 1: "guarded_rotation_x (getObjectByName b ''torso'') a (boy s)
      = Inr (set_rotation_x ''torso'' a (boy s))"
    using assms(1) by (rule guarded_is_set)
  have 2: "guarded_rotation_x (getObjectByName g ''torso'') a (girl s)
      = Inr (set_rotation_x ''torso'' a (girl s))"
    using assms(2) by (rule guarded_is_set)
  have 3: "guarded_rotation_x (getObjectByName b ''head'') a (set_rotation_x ''torso'' a (boy s))
      = Inr (bowed a (boy s))"
    unfolding bowed_def by (rule guarded_is_set) (simp add: assms(1))
  have 4: "guarded_rotation_x (getObjectByName g ''head'') a (set_rotation_x ''torso'' a (girl s))
      = Inr (bowed a (girl s))"
    unfolding bowed_def by (rule guarded_is_set) (simp add: assms(2))
  show ?thesis
    by (simp add: pose_def bow_refs_of_def 1 2 3 4)
qed

lemma rotation_x_same: "ob\<lparr>rotation := (rotation ob)\<lparr>vx := vx (rotation ob)\<rparr>\<rparr> = (ob :: object3d)"
  by simp

lemma bow_rel_refl: "bow_rel g g"
  unfolding bow_rel_def
proof (intro conjI allI impI)
  fix p ob
  assume "objects g p = Some ob"
  then have "objects g p = Some (ob\<lparr>rotation := (rotation ob)\<lparr>vx := vx (rotation ob)\<rparr>\<rparr>)"
    by (simp only: rotation_x_same)
  then show "\<exists>v. objects g p = Some (ob\<lparr>rotation := (rotation ob)\<lparr>vx := v\<rparr>\<rparr>)" ..
qed simp_all

lemma objects_set_rotation_x:
  "objects (set_rotation_x p a g) q =
     (if q = p then map_option (\<lambda>ob. ob\<lparr>rotation := (rotation ob)\<lparr>vx := a\<rparr>\<rparr>) (objects g q)
      else objects g q)"
  by (simp add: set_rotation_x_def split: option.splits)

lemma objects_bowed:
  "objects (bowed a g) q =
     (if q = ''torso'' \<or> q = ''head''
      then map_option (\<lambda>ob. ob\<lparr>rotation := (rotation ob)\<lparr>vx := a\<rparr>\<rparr>) (objects g q)
      else objects g q)"
  by (simp add: bowed_def objects_set_rotation_x)

lemma bow_relD:
  assumes "bow_rel g g'"
  shows "dom (objects g') = dom (objects g)"
    and "p \<noteq> ''torso'' \<Longrightarrow> p \<noteq> ''head'' \<Longrightarrow> objects g' p = objects g p"
    and "objects g p = Some ob \<Longrightarrow> \<exists>v. objects g' p = Some (ob\<lparr>rotation := (rotation ob)\<lparr>vx := v\<rparr>\<rparr>)"
proof -
  from assms have a: "dom (objects g') = dom (objects g) \<and>
     (\<forall>p. p \<noteq> ''torso'' \<and> p \<noteq> ''head'' \<longrightarrow> objects g' p = objects g p) \<and>
     (\<forall>p ob. objects g p = Some ob \<longrightarrow>
        (\<exists>v. objects g' p = Some (ob\<lparr>rotation := (rotation ob)\<lparr>vx := v\<rparr>\<rparr>)))"
    unfolding bow_rel_def .
  from a show "dom (objects g') = dom (objects g)" by (rule conjunct1)
  from a have b: "\<forall>p. p \<noteq> ''torso'' \<and> p \<noteq> ''head'' \<longrightarrow> objects g' p = objects g p"
    by (rule conjunct1 [OF conjunct2])
  from b show "p \<noteq> ''torso'' \<Longrightarrow> p \<noteq> ''head'' \<Longrightarrow> objects g' p = objects g p"
    by blast
  from a have c: "\<forall>p ob. objects g p = Some ob \<longrightarrow>
        (\<exists>v. objects g' p = Some (ob\<lparr>rotation := (rotation ob)\<lparr>vx := v\<rparr>\<rparr>))"
    by (rule conjunct2 [OF conjunct2])
  from c show "objects g p = Some ob \<Longrightarrow>
      \<exists>v. objects g' p = Some (ob\<lparr>rotation := (rotation ob)\<lparr>vx := v\<rparr>\<rparr>)"
    by (elim allE impE)
qed

lemma bow_rel_bowed:
  assumes "bow_rel g g'"
  shows "bow_rel g (bowed a g')" and "upright a (bowed a g')"
proof -
  show "upright a (bowed a g')"
    by (auto simp add: upright_def objects_bowed)
  have 1: "dom (objects (bowed a g')) = dom (objects g)"
    by (simp add: bowed_def bow_relD(1) [OF assms])
  have 2: "objects (bowed a g') p = objects g p" if "p \<noteq> ''torso'' \<and> p \<noteq> ''head''" for p
    using that by (simp add: objects_bowed bow_relD(2) [OF assms])
  have 3: "\<exists>v. objects (bowed a g') p = Some (ob\<lparr>rotation := (rotation ob)\<lparr>vx := v\<rparr>\<rparr>)"
    if "objects g p = Some ob" for p ob
  proof -
    from bow_relD(3) [OF assms that]
    obtain v where v: "objects g' p = Some (ob\<lparr>rotation := (rotation ob)\<lparr>vx := v\<rparr>\<rparr>)" ..
    show ?thesis
    proof (cases "p = ''torso'' \<or> p = ''head''")
      case True
      then have "objects (bowed a g') p = Some (ob\<lparr>rotation := (rotation ob)\<lparr>vx := a\<rparr>\<rparr>)"
        by (simp add: objects_bowed v)
      then show ?thesis ..
    next
      case False
      then have "objects (bowed a g') p = Some (ob\<lparr>rotation := (rotation ob)\<lparr>vx := v\<rparr>\<rparr>)"
        by (simp add: objects_bowed v)
      then show ?thesis ..
    qed
  qed
  show "bow_rel g (bowed a g')"
    unfolding bow_rel_def using 1 2 3 by (intro conjI allI impI)
qed

lemma bow_rel_rotation:
  "bow_rel g (g'\<lparr>rotation := x\<rparr>) \<longleftrightarrow> bow_rel g g'"
  "upright a (g'\<lparr>rotation := x\<rparr>) \<longleftrightarrow> upright a g'"
proof -
  have o: "objects (g'\<lparr>rotation := x\<rparr>) = objects g'" by simp
  show "bow_rel g (g'\<lparr>rotation := x\<rparr>) \<longleftrightarrow> bow_rel g g'"
    unfolding bow_rel_def o ..
  show "upright a (g'\<lparr>rotation := x\<rparr>) \<longleftrightarrow> upright a g'"
    unfolding upright_def o ..
qed


lemma bowFrames_snoc:
  "bowFrames (Suc n) r s = (case bowFrames n r s of Inl e \<Rightarrow> Inl e | Inr s1 \<Rightarrow> bowAnim r s1)"
proof (induction n arbitrary: s)
  case 0
  show ?case by (simp split: sum.splits)
next
  case (Suc n)
  show ?case
  proof (cases "bowAnim r s")
    case (Inl e)
    then show ?thesis by simp
  next
    case (Inr s1)
    with Suc [of s1] show ?thesis by simp
  qed
qed

lemma faceEachOther_fields:
  "bow_t (faceEachOther s) = bow_t s" "callbackCalls (faceEachOther s) = callbackCalls s"
  "boy (faceEachOther s) = (boy s)\<lparr>rotation := rotation (boy (faceEachOther s))\<rparr>"
  "girl (faceEachOther s) = (girl s)\<lparr>rotation := rotation (girl (faceEachOther s))\<rparr>"
  by (simp_all add: faceEachOther_def Let_def)

lemma bowAnim_step:
  assumes b: "bow_rel b (boy s)" and g: "bow_rel g (girl s)"
    and t: "bow_t s = real (min n 72) / 60" and c: "callbackCalls s = n - 72"
  shows "\<exists>s'. bowAnim (bow_refs_of b g) s = Inr s' \<and> bow_rel b (boy s') \<and> bow_rel g (girl s') \<and>
    bow_t s' = real (min (Suc n) 72) / 60 \<and> callbackCalls s' = Suc n - 72 \<and>
    (72 < Suc n \<longrightarrow> upright 0 (boy s') \<and> upright 0 (girl s'))"
proof -
  define P where "P a = s\<lparr>boy := bowed a (boy s), girl := bowed a (girl s)\<rparr>" for a
  have pose: "pose (bow_refs_of b g) a s = Inr (P a)" for a
    unfolding P_def by (rule pose_bowed) (rule bow_relD(1) [OF b], rule bow_relD(1) [OF g])
  have P: "bow_rel b (boy (P a))" "bow_rel g (girl (P a))" "upright a (boy (P a))"
    "upright a (girl (P a))" "bow_t (P a) = bow_t s" "callbackCalls (P a) = callbackCalls s" for a
    by (simp_all add: P_def bow_rel_bowed [OF b] bow_rel_bowed [OF g])
  consider "n < 36" | "36 \<le> n" "n < 72" | "72 \<le> n" by linarith
  then show ?thesis
  proof cases
    case 1
    then have lt: "bow_t s < bowTime" by (simp add: t bowTime_def)
    define a where "a = (bow_t s / bowTime) * (pi / 4)"
    have "bowAnim (bow_refs_of b g) s = Inr ((P a)\<lparr>bow_t := bow_t (P a) + 1 / 60\<rparr>)"
      using lt by (simp add: bowAnim_def Let_def pose a_def)
    moreover have "bow_t (P a) + 1 / 60 = real (min (Suc n) 72) / 60"
      using 1 by (simp add: P t add_divide_distrib)
    moreover have "callbackCalls (P a) = Suc n - 72"
      using 1 by (simp add: P c)
    ultimately show ?thesis
      using 1 by (simp add: P)
  next
    case 2
    then have lt: "\<not> bow_t s < bowTime" "bow_t s < bowTime + upTime"
      by (simp_all add: t bowTime_def upTime_def)
    define a where "a = (1 - (bow_t s - bowTime) / upTime) * (pi / 4)"
    have "bowAnim (bow_refs_of b g) s = Inr ((P a)\<lparr>bow_t := bow_t (P a) + 1 / 60\<rparr>)"
      using lt by (simp add: bowAnim_def Let_def pose a_def)
    moreover have "bow_t (P a) + 1 / 60 = real (min (Suc n) 72) / 60"
      using 2 by (simp add: P t add_divide_distrib)
    moreover have "callbackCalls (P a) = Suc n - 72"
      using 2 by (simp add: P c)
    ultimately show ?thesis
      using 2 by (simp add: P)
  next
    case 3
    then have lt: "\<not> bow_t s < bowTime" "\<not> bow_t s < bowTime + upTime"
      by (simp_all add: t bowTime_def upTime_def)
    define s2 where "s2 = faceEachOther (P 0)"
    have an: "bowAnim (bow_refs_of b g) s = Inr (s2\<lparr>callbackCalls := Suc (callbackCalls s2)\<rparr>)"
      using lt by (simp add: bowAnim_def Let_def pose s2_def)
    have xy: "boy s2 = (boy (P 0))\<lparr>rotation := rotation (boy s2)\<rparr>"
      "girl s2 = (girl (P 0))\<lparr>rotation := rotation (girl s2)\<rparr>"
      unfolding s2_def by (rule faceEachOther_fields)+
    have rel: "bow_rel b (boy s2)" "bow_rel g (girl s2)" "upright 0 (boy s2)" "upright 0 (girl s2)"
      by (subst xy, simp only: bow_rel_rotation, rule P)+
    have "bow_t s2 = real (min (Suc n) 72) / 60"
      using 3 by (simp add: s2_def faceEachOther_fields P t)
    moreover have "Suc (callbackCalls s2) = Suc n - 72"
      using 3 by (simp add: s2_def faceEachOther_fields P c)
    ultimately show ?thesis
      using rel by (simp add: an)
  qed
qed

lemma bowFrames_inv:
  "\<exists>s. bowFrames n (bow_refs_of b g) \<lparr>bow_t = 0, boy = b, girl = g, callbackCalls = 0\<rparr> = Inr s \<and>
     bow_rel b (boy s) \<and> bow_rel g (girl s) \<and> bow_t s = real (min n 72) / 60 \<and>
     callbackCalls s = n - 72 \<and> (72 < n \<longrightarrow> upright 0 (boy s) \<and> upright 0 (girl s))"
proof (induction n)
  case 0
  show ?case by (simp add: bow_rel_refl)
next
  case (Suc n)
  then obtain s where s: "bowFrames n (bow_refs_of b g)
        \<lparr>bow_t = 0, boy = b, girl = g, callbackCalls = 0\<rparr> = Inr s"
    and inv: "bow_rel b (boy s)" "bow_rel g (girl s)" "bow_t s = real (min n 72) / 60"
      "callbackCalls s = n - 72"
    by blast
  from bowAnim_step [OF inv] show ?case
    unfolding bowFrames_snoc s by simp
qed

text \<open>
  C5. Whatever parts the two characters have, \<^verbatim>\<open>bowFighters\<close> raises no error in any
  number of frames. The characters keep their parts: none is added for a lookup that found
  nothing, and the parts other than torso and head are untouched. From the 73rd frame on
  the bow is over: the callback has been called (once in every frame from the 73rd on,
  since the request for the next frame is never cancelled), and the torso and the head
  that are there stand upright, with \<^verbatim>\<open>rotation.x = 0\<close> and nothing else changed.
\<close>

theorem bowFighters_missing_parts:
  "\<exists>s. bowFighters n b g = Inr s \<and> callbackCalls s = n - 72 \<and>
     dom (objects (boy s)) = dom (objects b) \<and> dom (objects (girl s)) = dom (objects g) \<and>
     (\<forall>p. p \<noteq> ''torso'' \<and> p \<noteq> ''head'' \<longrightarrow>
        objects (boy s) p = objects b p \<and> objects (girl s) p = objects g p) \<and>
     (72 < n \<longrightarrow>
        (\<forall>p ob. p = ''torso'' \<or> p = ''head'' \<longrightarrow>
           (objects b p = Some ob \<longrightarrow>
              objects (boy s) p = Some (ob\<lparr>rotation := (rotation ob)\<lparr>vx := 0\<rparr>\<rparr>)) \<and>
           (objects g p = Some ob \<longrightarrow>
              objects (girl s) p = Some (ob\<lparr>rotation := (rotation ob)\<lparr>vx := 0\<rparr>\<rparr>))))"
proof -
  from bowFrames_inv [of n b g] obtain s
    where s: "bowFighters n b g = Inr s"
      and b: "bow_rel b (boy s)" and g: "bow_rel g (girl s)"
      and c: "callbackCalls s = n - 72"
      and u: "72 < n \<longrightarrow> upright 0 (boy s) \<and> upright 0 (girl s)"
    unfolding bowFighters_def bow_refs_of_def by blast
  have up: "objects x' p = Some (ob\<lparr>rotation := (rotation ob)\<lparr>vx := 0\<rparr>\<rparr>)"
    if "bow_rel x x'" and "upright 0 x'" and "p = ''torso'' \<or> p = ''head''"
      and "objects x p = Some ob" for x x' p ob
  proof -
    from bow_relD(3) [OF that(1,4)]
    obtain v where v: "objects x' p = Some (ob\<lparr>rotation := (rotation ob)\<lparr>vx := v\<rparr>\<rparr>)" ..
    with that(2,3) have "v = 0" unfolding upright_def by fastforce
    with v show ?thesis by simp
  qed
  have parts: "objects (boy s) p = objects b p \<and> objects (girl s) p = objects g p"
    if "p \<noteq> ''torso'' \<and> p \<noteq> ''head''" for p
    using that bow_relD(2) [OF b] bow_relD(2) [OF g] by simp
  have over: "(objects b p = Some ob \<longrightarrow>
              objects (boy s) p = Some (ob\<lparr>rotation := (rotation ob)\<lparr>vx := 0\<rparr>\<rparr>)) \<and>
           (objects g p = Some ob \<longrightarrow>
              objects (girl s) p = Some (ob\<lparr>rotation := (rotation ob)\<lparr>vx := 0\<rparr>\<rparr>))"
    if "72 < n" and "p = ''torso'' \<or> p = ''head''" for p ob
    using up [OF b _ that(2)] up [OF g _ that(2)] u that(1) by blast
  show ?thesis
  proof (intro exI [of _ s] conjI)
    show "bowFighters n b g = Inr s" by (rule s)
    show "callbackCalls s = n - 72" by (rule c)
    show "dom (objects (boy s)) = dom (objects b)" by (rule bow_relD(1) [OF b])
    show "dom (objects (girl s)) = dom (objects g)" by (rule bow_relD(1) [OF g])
    show "\<forall>p. p \<noteq> ''torso'' \<and> p \<noteq> ''head'' \<longrightarrow>
        objects (boy s) p = objects b p \<and> objects (girl s) p = objects g p"
      by (intro allI impI) (rule parts)
    show "72 < n \<longrightarrow>
        (\<forall>p ob. p = ''torso'' \<or> p = ''head'' \<longrightarrow>
           (objects b p = Some ob \<longrightarrow>
              objects (boy s) p = Some (ob\<lparr>rotation := (rotation ob)\<lparr>vx := 0\<rparr>\<rparr>)) \<and>
           (objects g p = Some ob \<longrightarrow>
              objects (girl s) p = Some (ob\<lparr>rotation := (rotation ob)\<lparr>vx := 0\<rparr>\<rparr>)))"
      by (intro allI impI) (rule over)
  qed
qed

theorem bowFighters_missing_parts_witness:
  "\<exists>s. bowFighters 73 headless bare = Inr s \<and> callbackCalls s = 1 \<and>
     getObjectByName headless ''head'' = None \<and> getObjectByName bare ''torso'' = None \<and>
     getObjectByName bare ''head'' = None \<and>
     objects (boy s) ''head'' = None \<and> objects (girl s) = Map.empty \<and>
     objects (boy s) ''rightArm'' = Some (part 0.95 2.25) \<and>
     objects (boy s) ''torso'' = Some (part 0 2.25)"
proof -
  have h: "objects headless ''torso'' = Some (part 0 2.25)"
    "objects headless ''rightArm'' = Some (part 0.95 2.25)"
    "''head'' \<notin> dom (objects headless)" "dom (objects bare) = {}"
    by (simp_all add: headless_def bare_def boy_init_def)
  have p: "(part 0 2.25)\<lparr>rotation := (rotation (part 0 2.25))\<lparr>vx := 0\<rparr>\<rparr> = part 0 2.25"
    by (simp add: part_def)
  from bowFighters_missing_parts [of 73 headless bare] obtain s
    where "bowFighters 73 headless bare = Inr s" and "callbackCalls s = 73 - 72"
      and "dom (objects (boy s)) = dom (objects headless)"
      and "dom (objects (girl s)) = dom (objects bare)"
      and "objects (boy s) ''rightArm'' = objects headless ''rightArm''"
      and "objects headless ''torso'' = Some (part 0 2.25) \<longrightarrow>
         objects (boy s) ''torso''
           = Some ((part 0 2.25)\<lparr>rotation := (rotation (part 0 2.25))\<lparr>vx := 0\<rparr>\<rparr>)"
    by auto
  with h p show ?thesis
    by (auto simp add: getObjectByName_def)
qed

section \<open>The output directory of a build\<close>

lemma and_then_simps [simp]:
  "and_then (Inl e) k = Inl e" "and_then (Inr st) k = k st"
  by (simp_all add: and_then_def)

lemma run_cmd_ok: "exec c (fs st) = (0, f') \<Longrightarrow> run_cmd exec c st = Inr (st\<lparr>fs := f'\<rparr>)"
  by (simp add: run_cmd_def)

lemma build_games_append:
  "build_games exec is_dir (xs @ ys) st
     = and_then (build_games exec is_dir xs st) (build_games exec is_dir ys)"
proof (induction xs arbitrary: st)
  case Nil
  show ?case by simp
next
  case (Cons x xs)
  show ?case
    by (cases "build_game exec is_dir x st") (simp_all add: Cons)
qed

text \<open>
  C4. Take a run of the job in which the two steps before the build and the commands of the
  script up to the test of the output directory of a game succeed: \<^verbatim>\<open>rm -rf\<close>,
  \<^verbatim>\<open>mkdir -p\<close>, the rounds of the loop for the games before it, and for the game itself
  \<^verbatim>\<open>pushd\<close>, \<^verbatim>\<open>npm ci\<close>, \<^verbatim>\<open>npm run build\<close> and \<^verbatim>\<open>popd\<close>. Then the output
  directory is \<^verbatim>\<open>dist\<close> of the game if that is a directory, else \<^verbatim>\<open>build\<close> of the
  game if that is one. If neither is, the round writes the message to standard error and
  the script ends there with status 1; the step fails and the two steps after it, the
  upload and the deployment, do not run. Otherwise the round goes on with
  \<^verbatim>\<open>mkdir -p site/game\<close> and then \<^verbatim>\<open>cp -r\<close> from the output directory's \<^verbatim>\<open>/*\<close> to
  \<^verbatim>\<open>site/game/\<close>.
\<close>

theorem build_output_directory:
  assumes checkout: "action Checkout_repository (fs st) = (0, f1)"
    and node: "action Setup_Node f1 = (0, f2)"
    and rm: "exec (Rm_rf ''site'') f2 = (0, f3)"
    and mkdir: "exec (Mkdir_p ''site'') f3 = (0, f4)"
    and games: "GAMES = before @ game # after"
    and earlier: "build_games exec is_dir before (st\<lparr>fs := f4\<rparr>) = Inr sb"
    and pushd: "exec (Pushd game) (fs sb) = (0, f5)"
    and npm_ci: "exec Npm_ci f5 = (0, f6)"
    and npm_build: "exec Npm_run_build f6 = (0, f7)"
    and popd: "exec Popd f7 = (0, f8)"
    and sc: "sc = sb\<lparr>stdout := stdout sb @ [building_message game], fs := f8\<rparr>"
  shows "(is_dir f8 (game @ ''/dist'') \<longrightarrow>
      out_dir is_dir f8 game = Some (game @ ''/dist'') \<and>
      build_game exec is_dir game sb =
        and_then (run_cmd exec (Mkdir_p (''site/'' @ game)) sc)
          (run_cmd exec (Cp_r (game @ ''/dist/*'') (''site/'' @ game @ ''/'')))) \<and>
    (\<not> is_dir f8 (game @ ''/dist'') \<and> is_dir f8 (game @ ''/build'') \<longrightarrow>
      out_dir is_dir f8 game = Some (game @ ''/build'') \<and>
      build_game exec is_dir game sb =
        and_then (run_cmd exec (Mkdir_p (''site/'' @ game)) sc)
          (run_cmd exec (Cp_r (game @ ''/build/*'') (''site/'' @ game @ ''/'')))) \<and>
    (\<not> is_dir f8 (game @ ''/dist'') \<and> \<not> is_dir f8 (game @ ''/build'') \<longrightarrow>
      out_dir is_dir f8 game = None \<and>
      build_game exec is_dir game sb
        = Inl (1, sc\<lparr>stderr := stderr sc @ [missing_message game]\<rparr>) \<and>
      build_script exec is_dir (st\<lparr>fs := f2\<rparr>)
        = (1, sc\<lparr>stderr := stderr sc @ [missing_message game]\<rparr>) \<and>
      build_and_deploy action exec is_dir st
        = ([(Checkout_repository, 0), (Setup_Node, 0), (Build_games, 1)],
           sc\<lparr>stderr := stderr sc @ [missing_message game]\<rparr>))"
proof -
  have round: "build_game exec is_dir game sb =
      (case out_dir is_dir f8 game of
         None \<Rightarrow> Inl (1, sc\<lparr>stderr := stderr sc @ [missing_message game]\<rparr>)
       | Some d \<Rightarrow>
           and_then (run_cmd exec (Mkdir_p (''site/'' @ game)) sc)
             (run_cmd exec (Cp_r (d @ ''/*'') (''site/'' @ game @ ''/''))))"
    using pushd npm_ci npm_build popd
    by (simp add: build_game_def run_cmd_def sc SITE_DIR_def split: option.splits)
  have 1: "out_dir is_dir f8 game = Some (game @ ''/dist'')" if "is_dir f8 (game @ ''/dist'')"
    using that by (simp add: out_dir_def)
  have 2: "out_dir is_dir f8 game = Some (game @ ''/build'')"
    if "\<not> is_dir f8 (game @ ''/dist'')" and "is_dir f8 (game @ ''/build'')"
    using that by (simp add: out_dir_def)
  have 3: "out_dir is_dir f8 game = None"
    if "\<not> is_dir f8 (game @ ''/dist'')" and "\<not> is_dir f8 (game @ ''/build'')"
    using that by (simp add: out_dir_def)
  have script: "build_script exec is_dir (st\<lparr>fs := f2\<rparr>)
        = (1, sc\<lparr>stderr := stderr sc @ [missing_message game]\<rparr>)"
    if "out_dir is_dir f8 game = None"
  proof -
    from that round have "build_game exec is_dir game sb
        = Inl (1, sc\<lparr>stderr := stderr sc @ [missing_message game]\<rparr>)"
      by simp
    then have "build_games exec is_dir GAMES (st\<lparr>fs := f4\<rparr>)
        = Inl (1, sc\<lparr>stderr := stderr sc @ [missing_message game]\<rparr>)"
      unfolding games build_games_append earlier by simp
    then show ?thesis
      using rm mkdir by (simp add: build_script_def run_cmd_def SITE_DIR_def)
  qed
  have job: "build_and_deploy action exec is_dir st
        = ([(Checkout_repository, 0), (Setup_Node, 0), (Build_games, 1)],
           sc\<lparr>stderr := stderr sc @ [missing_message game]\<rparr>)"
    if "out_dir is_dir f8 game = None"
    using script [OF that] checkout node
    by (simp add: build_and_deploy_def run_step_def)
  from round 1 2 3 script job show ?thesis
    by simp
qed

theorem build_output_directory_witness:
  "build_game toy_exec toy_is_dir ''fighters'' \<lparr>fs = insert ''site'' toy_repo, stdout = [], stderr = []\<rparr>
     = Inr \<lparr>fs = toy_built, stdout = [building_message ''fighters''], stderr = []\<rparr> \<and>
   build_and_deploy toy_action toy_exec toy_is_dir toy_shell
     = ([(Checkout_repository, 0), (Setup_Node, 0), (Build_games, 1)],
        \<lparr>fs = toy_built, stdout = [building_message ''fighters'', building_message ''cubes''],
         stderr = [missing_message ''cubes'']\<rparr>)"
proof -
  define sa :: "string set shell"
    where "sa = \<lparr>fs = insert ''site'' toy_repo, stdout = [], stderr = []\<rparr>"
  define sb :: "string set shell"
    where "sb = \<lparr>fs = toy_built, stdout = [building_message ''fighters''], stderr = []\<rparr>"
  have checkout: "toy_action Checkout_repository (fs toy_shell) = (0, toy_repo)"
    and node: "toy_action Setup_Node toy_repo = (0, toy_repo)"
    and rm: "toy_exec (Rm_rf ''site'') toy_repo = (0, toy_repo)"
    and mkdir: "toy_exec (Mkdir_p ''site'') toy_repo = (0, insert ''site'' toy_repo)"
    by (simp_all add: toy_action_def toy_exec_def toy_repo_def)
  have sa: "toy_shell\<lparr>fs := insert ''site'' toy_repo\<rparr> = sa"
    by (simp add: toy_shell_def sa_def)
  have built: "insert ''site/fighters'' (insert ''fighters/dist'' (insert ''site'' toy_repo)) = toy_built"
    "insert ''fighters/dist'' toy_built = toy_built"
    by (auto simp add: toy_built_def toy_repo_def)
  have dirs: "toy_is_dir (insert ''fighters/dist'' (insert ''site'' toy_repo)) (''fighters'' @ ''/dist'')"
    "\<not> toy_is_dir toy_built (''cubes'' @ ''/dist'')" "\<not> toy_is_dir toy_built (''cubes'' @ ''/build'')"
    by (simp_all add: toy_is_dir_def toy_built_def)
  have run: "toy_exec (Pushd game) f = (0, f)" "toy_exec Npm_ci f = (0, f)"
    "toy_exec Npm_run_build f = (0, insert ''fighters/dist'' f)" "toy_exec Popd f = (0, f)"
    for game f
    by (simp_all add: toy_exec_def)
  have g1: "GAMES = [] @ ''fighters'' # [''cubes'']" and g2: "GAMES = [''fighters''] @ ''cubes'' # []"
    by (simp_all add: GAMES_def)
  have e1: "build_games toy_exec toy_is_dir [] (toy_shell\<lparr>fs := insert ''site'' toy_repo\<rparr>) = Inr sa"
    by (simp add: sa)
  have fighters: "build_game toy_exec toy_is_dir ''fighters'' sa = Inr sb"
    using build_output_directory [where action = toy_action and exec = toy_exec
        and is_dir = toy_is_dir, OF checkout node rm mkdir g1 e1 run(1) run(2) run(3) run(4) refl]
      dirs(1)
    by (simp add: sa_def sb_def run_cmd_def toy_exec_def built)
  have e2: "build_games toy_exec toy_is_dir [''fighters''] (toy_shell\<lparr>fs := insert ''site'' toy_repo\<rparr>)
      = Inr sb"
    unfolding sa by (simp add: fighters)
  have "build_and_deploy toy_action toy_exec toy_is_dir toy_shell
     = ([(Checkout_repository, 0), (Setup_Node, 0), (Build_games, 1)],
        \<lparr>fs = toy_built, stdout = [building_message ''fighters'', building_message ''cubes''],
         stderr = [missing_message ''cubes'']\<rparr>)"
    using build_output_directory [where action = toy_action and exec = toy_exec
        and is_dir = toy_is_dir, OF checkout node rm mkdir g2 e2 run(1) run(2) run(3) run(4) refl]
      dirs(2,3)
    by (simp add: sb_def built)
  with fighters show ?thesis
    by (simp add: sa_def sb_def)
qed

section \<open>The timers\<close>

lemma updateFighter_timer:
  "(case updateFighter boxOf ks over f opponent dt of
      (f', opponent', n) \<Rightarrow>
        (over \<or> health f \<le> 0 \<longrightarrow> f' = f) \<and>
        (\<not> over \<and> health f > 0 \<and> (isAttacking f \<or> requestedAttack ks f \<noteq> None) \<longrightarrow>
           attackTimer f' = (if isAttacking f then attackTimer f else attackDuration) - dt \<and>
           (attackTimer f' \<le> 0 \<longrightarrow> \<not> isAttacking f' \<and> attackType f' = None)) \<and>
        (\<not> over \<and> health f > 0 \<and> \<not> isAttacking f \<and> requestedAttack ks f = None \<longrightarrow>
           attackTimer f' = attackTimer f))"
  by (auto simp add: updateFighter_def Let_def startAttack_def split: option.splits)

lemma updateFighter_blocking_timer:
  "(case updateFighter_blocking boxOfB ks over b opponentB dt of
      (b', opponentB', n) \<Rightarrow>
        (over \<or> health b \<le> 0 \<longrightarrow> b' = b) \<and>
        (\<not> over \<and> health b > 0 \<longrightarrow>
           blockTimer b' =
             (if pressed ks (block (controls b)) then BLOCK_GRACE
              else if blockTimer b > 0 then blockTimer b - dt else blockTimer b) \<and>
           (isBlocking b' \<longleftrightarrow> blockTimer b' > 0)) \<and>
        (\<not> over \<and> health b > 0 \<and>
         (isAttacking b \<or> requestedAttack_blocking ks (updateBlocking ks dt b) \<noteq> None) \<longrightarrow>
           attackTimer b' = (if isAttacking b then attackTimer b else attackDuration) - dt \<and>
           (attackTimer b' \<le> 0 \<longrightarrow> \<not> isAttacking b' \<and> attackType b' = None)))"
  by (auto simp add: updateFighter_blocking_def Let_def startAttack_def split: option.splits)


text \<open>
  C2, as the code has it. A fighter's update runs only while the game is not over and the
  fighter has health left; otherwise it returns the fighter as it was, timers included. When
  it runs, the attack timer of a fighter that is attacking, or starts an attack in this
  frame with the full duration, goes down by \<open>dt\<close>, and at 0 or below the attacking state
  ends: \<^verbatim>\<open>isAttacking\<close> is false and \<^verbatim>\<open>attackType\<close> is empty. In the variant with
  blocking the block timer is set to the grace period while the block key is held, and goes
  down by \<open>dt\<close> otherwise while it is positive. The cooldowns of the special attacks are not
  touched by the fighter's update: the frame loop takes \<open>dt\<close> from the lightning and the
  fireball cooldown while they are positive, and the handler of the force field does so for
  the cooldown of the field, which it has just set when the field starts in this frame. In
  the arena the timer block takes \<open>dt\<close> from an attack timer and from a block timer that are
  positive, and ends the attack or the block when the timer is at 0 or below then.
\<close>

theorem timers_decremented:
  "(case updateFighter boxOf ks over f opponent dt of
      (f', opponent', n) \<Rightarrow>
        (over \<or> health f \<le> 0 \<longrightarrow> f' = f) \<and>
        (\<not> over \<and> health f > 0 \<and> (isAttacking f \<or> requestedAttack ks f \<noteq> None) \<longrightarrow>
           attackTimer f' = (if isAttacking f then attackTimer f else attackDuration) - dt \<and>
           (attackTimer f' \<le> 0 \<longrightarrow> \<not> isAttacking f' \<and> attackType f' = None)) \<and>
        (\<not> over \<and> health f > 0 \<and> \<not> isAttacking f \<and> requestedAttack ks f = None \<longrightarrow>
           attackTimer f' = attackTimer f)) \<and>
   (case updateFighter_blocking boxOfB ks over b opponentB dt of
      (b', opponentB', n) \<Rightarrow>
        (over \<or> health b \<le> 0 \<longrightarrow> b' = b) \<and>
        (\<not> over \<and> health b > 0 \<longrightarrow>
           blockTimer b' =
             (if pressed ks (block (controls b)) then BLOCK_GRACE
              else if blockTimer b > 0 then blockTimer b - dt else blockTimer b) \<and>
           (isBlocking b' \<longleftrightarrow> blockTimer b' > 0)) \<and>
        (\<not> over \<and> health b > 0 \<and>
         (isAttacking b \<or> requestedAttack_blocking ks (updateBlocking ks dt b) \<noteq> None) \<longrightarrow>
           attackTimer b' = (if isAttacking b then attackTimer b else attackDuration) - dt \<and>
           (attackTimer b' \<le> 0 \<longrightarrow> \<not> isAttacking b' \<and> attackType b' = None))) \<and>
   lightningCooldown (tickCooldowns dt w) =
     (if lightningCooldown w > 0 then lightningCooldown w - dt else lightningCooldown w) \<and>
   fireballCooldown (tickCooldowns dt w) =
     (if fireballCooldown w > 0 then fireballCooldown w - dt else fireballCooldown w) \<and>
   forceCooldown (handleForceField ks key prevPressed dt b) =
     (if pressed ks key \<and> \<not> prevPressed \<and> forceCooldown b \<le> 0 \<and> forceActiveTimer b \<le> 0
      then COOLDOWN - dt
      else if forceCooldown b > 0 then forceCooldown b - dt else forceCooldown b) \<and>
   (s_attackTimer s > 0 \<longrightarrow>
      s_attackTimer (updateTimers dt s) = s_attackTimer s - dt \<and>
      (s_attackTimer s - dt \<le> 0 \<longrightarrow>
         \<not> s_isAttacking (updateTimers dt s) \<and> s_attackType (updateTimers dt s) = None)) \<and>
   (s_blockTimer s > 0 \<longrightarrow>
      s_blockTimer (updateTimers dt s) = s_blockTimer s - dt \<and>
      (s_blockTimer s - dt \<le> 0 \<longrightarrow> \<not> s_isBlocking (updateTimers dt s)))"
proof -
  have cool: "lightningCooldown (tickCooldowns dt w) =
     (if lightningCooldown w > 0 then lightningCooldown w - dt else lightningCooldown w)"
    "fireballCooldown (tickCooldowns dt w) =
     (if fireballCooldown w > 0 then fireballCooldown w - dt else fireballCooldown w)"
    by (simp_all add: tickCooldowns_def Let_def)
  have field: "forceCooldown (handleForceField ks key prevPressed dt b) =
     (if pressed ks key \<and> \<not> prevPressed \<and> forceCooldown b \<le> 0 \<and> forceActiveTimer b \<le> 0
      then COOLDOWN - dt
      else if forceCooldown b > 0 then forceCooldown b - dt else forceCooldown b)"
    by (simp add: handleForceField_def Let_def COOLDOWN_def)
  have arena1: "s_attackTimer s > 0 \<longrightarrow>
      s_attackTimer (updateTimers dt s) = s_attackTimer s - dt \<and>
      (s_attackTimer s - dt \<le> 0 \<longrightarrow>
         \<not> s_isAttacking (updateTimers dt s) \<and> s_attackType (updateTimers dt s) = None)"
    by (simp add: updateTimers_def Let_def)
  have arena2: "s_blockTimer s > 0 \<longrightarrow>
      s_blockTimer (updateTimers dt s) = s_blockTimer s - dt \<and>
      (s_blockTimer s - dt \<le> 0 \<longrightarrow> \<not> s_isBlocking (updateTimers dt s))"
    by (simp add: updateTimers_def Let_def)
  from updateFighter_timer [where boxOf = boxOf and ks = ks and over = over and f = f
      and opponent = opponent and dt = dt]
    updateFighter_blocking_timer [where boxOfB = boxOfB and ks = ks and over = over and b = b
      and opponentB = opponentB and dt = dt]
    cool field arena1 arena2
  show ?thesis by (intro conjI)
qed

lemma blocker_facts:
  "blockTimer blocker = 1 / 4" "isBlocking blocker" "health blocker = 100"
  "\<not> isAttacking blocker" "block (controls blocker) = ''KeyR''"
  "punch (controls blocker) = ''KeyF''" "kick (controls blocker) = ''KeyH''"
  by (simp_all add: blocker_def updateFighter_blocking_def Let_def bfighter1_init_def
      requestedAttack_blocking_def startAttack_def pressed_def block_keys_def BLOCK_GRACE_def)

text \<open>
  Two timers that a fighter's update does not decrement. The boy who has been struck down in
  the middle of his punch has time left on the attack timer, less than the quarter of a
  second of the next frame, and after that frame the timer is what it was and he is still
  attacking. And the boy of the blocking variant who holds his block key has the block timer
  at a quarter of a second after the first frame and at a quarter of a second again after
  the second, an eighth of a second long.
\<close>

theorem timers_decremented_counterexample:
  "isAttacking struck_down \<and> 0 < attackTimer struck_down \<and> attackTimer struck_down < 1 / 4 \<and>
   isAttacking (fst (updateFighter sampleBox strike_keys False struck_down winner (1 / 4))) \<and>
   attackTimer (fst (updateFighter sampleBox strike_keys False struck_down winner (1 / 4)))
     = attackTimer struck_down \<and>
   blockTimer blocker = 1 / 4 \<and>
   blockTimer (fst (updateFighter_blocking sampleBox_shield block_keys False blocker
      bfighter2_init (1 / 8))) = 1 / 4"
proof -
  have s: "struck_down = (strikePose strike_keys (1 / 4) boy_hurt girl_near)\<lparr>health := 0\<rparr>"
    by (simp add: struck_down_def after_girl_update_eq)
  have a: "isAttacking struck_down" "attackTimer struck_down = 1 / 20" "health struck_down = 0"
    by (simp_all add: s boy_after_facts)
  have g: "updateFighter sampleBox strike_keys False struck_down winner (1 / 4)
      = (struck_down, winner, 0)"
    by (rule updateFighter_guard) (simp add: a)
  have b: "blockTimer (fst (updateFighter_blocking sampleBox_shield block_keys False blocker
      bfighter2_init (1 / 8))) = 1 / 4"
    using updateFighter_blocking_timer [where boxOfB = sampleBox_shield and ks = block_keys
        and over = False and b = blocker and opponentB = bfighter2_init and dt = "1 / 8"]
    by (simp add: blocker_facts pressed_def block_keys_def BLOCK_GRACE_def case_prod_beta)
  from a g b blocker_facts(1) show ?thesis by simp
qed

theorem timers_decremented_witness:
  "attackTimer (fst (updateFighter sampleBox strike_keys False boy_hurt girl_near (1 / 8)))
     = attackDuration - 1 / 8 \<and>
   blockTimer (fst (updateFighter_blocking sampleBox_shield strike_keys False blocker
      bfighter2_init (1 / 8))) = 1 / 8 \<and>
   lightningCooldown (tickCooldowns (1 / 8) world_cooling) = 7 / 8 \<and>
   s_attackTimer (updateTimers (1 / 8) arena_puncher) = - (1 / 16) \<and>
   \<not> s_isAttacking (updateTimers (1 / 8) arena_puncher) \<and>
   s_attackType (updateTimers (1 / 8) arena_puncher) = None \<and>
   s_blockTimer (updateTimers (1 / 8) arena_puncher) = 1 / 8"
proof -
  note t = timers_decremented [where boxOf = sampleBox and ks = strike_keys and over = False
      and f = boy_hurt and opponent = girl_near and dt = "1 / 8" and w = world_cooling
      and s = arena_puncher and boxOfB = sampleBox_shield and b = blocker
      and opponentB = bfighter2_init and key = "''KeyG''" and prevPressed = False]
  have 1: "attackTimer (fst (updateFighter sampleBox strike_keys False boy_hurt girl_near (1 / 8)))
     = attackDuration - 1 / 8"
    using t by (simp add: boy_hurt_facts strike_requests case_prod_beta)
  have k: "\<not> pressed strike_keys ''KeyR''"
    by (simp add: pressed_def strike_keys_def)
  have 2: "blockTimer (fst (updateFighter_blocking sampleBox_shield strike_keys False blocker
      bfighter2_init (1 / 8))) = 1 / 8"
    using t by (simp add: blocker_facts k case_prod_beta)
  have 3: "lightningCooldown (tickCooldowns (1 / 8) world_cooling) = 7 / 8"
    using t by (simp add: world_cooling_def world_init_def)
  have 4: "s_attackTimer (updateTimers (1 / 8) arena_puncher) = - (1 / 16) \<and>
   \<not> s_isAttacking (updateTimers (1 / 8) arena_puncher) \<and>
   s_attackType (updateTimers (1 / 8) arena_puncher) = None \<and>
   s_blockTimer (updateTimers (1 / 8) arena_puncher) = 1 / 8"
    using t by (simp add: arena_puncher_def arena_fighter_def)
  from 1 2 3 4 show ?thesis by simp
qed

end
